theory Spec2Isabelle
  imports Main
begin

section \<open>JavaScript strings\<close>

text \<open>
  A JavaScript string is a sequence of UTF-16 code units; it is modelled as the list of
  these code units. ASCII text is written with \<open>js\<close>; the non-ASCII characters of the
  source's literals (accented letters, bullets, emoji) appear as their code units.
\<close>

type_synonym jsstring = "nat list"

definition js :: "string \<Rightarrow> jsstring" where
  "js s = map of_char s"

text \<open>
  \<^verbatim>\<open>String.prototype.trim\<close>: removes the WhiteSpace and LineTerminator code points of
  ECMAScript from both ends (TAB, LF, VT, FF, CR, SP, NBSP, U+1680, U+2000..U+200A,
  U+2028, U+2029, U+202F, U+205F, U+3000, U+FEFF).
\<close>

definition is_js_space :: "nat \<Rightarrow> bool" where
  "is_js_space c =
     (c = 9 \<or> c = 10 \<or> c = 11 \<or> c = 12 \<or> c = 13 \<or> c = 32 \<or> c = 160 \<or> c = 5760
      \<or> (8192 \<le> c \<and> c \<le> 8202) \<or> c = 8232 \<or> c = 8233 \<or> c = 8239 \<or> c = 8287
      \<or> c = 12288 \<or> c = 65279)"

definition trim :: "jsstring \<Rightarrow> jsstring" where
  "trim s = rev (dropWhile is_js_space (rev (dropWhile is_js_space s)))"

text \<open>
  \<^verbatim>\<open>String.prototype.toLowerCase\<close>. The table covers Basic Latin, Latin-1, and the
  three code points outside Latin-1 whose lower case lies in Latin-1 or is longer than
  one unit (U+0130, U+212A, U+212B); the other code units are left as they are. The
  source compares the result with \<^verbatim>\<open>'0'\<close> and \<^verbatim>\<open>'sair'\<close> only, and no code point
  outside \<open>A..Z\<close> has a lower case among the characters of these two words.
\<close>

definition lower_unit :: "nat \<Rightarrow> jsstring" where
  "lower_unit c =
     (if 65 \<le> c \<and> c \<le> 90 then [c + 32]
      else if 192 \<le> c \<and> c \<le> 222 \<and> c \<noteq> 215 then [c + 32]
      else if c = 304 then [105, 775]
      else if c = 8490 then [107]
      else if c = 8491 then [229]
      else [c])"

definition toLowerCase :: "jsstring \<Rightarrow> jsstring" where
  "toLowerCase s = concat (map lower_unit s)"

text \<open>Decimal rendering of a number in a template literal (\<^verbatim>\<open>`${Date.now()}`\<close>).\<close>

fun show_nat :: "nat \<Rightarrow> jsstring" where
  "show_nat n = (if n < 10 then [48 + n] else show_nat (n div 10) @ [48 + n mod 10])"

declare show_nat.simps [simp del]

definition show_int :: "int \<Rightarrow> jsstring" where
  "show_int i = (if i < 0 then js ''-'' @ show_nat (nat (- i)) else show_nat (nat i))"

text \<open>
  \<^verbatim>\<open>s.split('/')[1]\<close>: the text between the first and the second slash; \<open>None\<close>
  (\<^verbatim>\<open>undefined\<close>) when the string has no slash.
\<close>

definition slash :: nat where
  "slash = 47"

definition split_second :: "jsstring \<Rightarrow> jsstring option" where
  "split_second s =
     (case dropWhile (\<lambda>c. c \<noteq> slash) s of
        [] \<Rightarrow> None
      | _ # rest \<Rightarrow> Some (takeWhile (\<lambda>c. c \<noteq> slash) rest))"

text \<open>\<^verbatim>\<open>x || d\<close> on an optional string: \<^verbatim>\<open>undefined\<close> and \<^verbatim>\<open>''\<close> are falsy.\<close>

definition or_default :: "jsstring option \<Rightarrow> jsstring \<Rightarrow> jsstring" where
  "or_default x d = (case x of None \<Rightarrow> d | Some s \<Rightarrow> if s = [] then d else s)"

text \<open>\<^verbatim>\<open>`${x}`\<close> on an optional string: \<^verbatim>\<open>undefined\<close> prints as the word.\<close>

definition template_opt :: "jsstring option \<Rightarrow> jsstring" where
  "template_opt x = (case x of None \<Rightarrow> js ''undefined'' | Some s \<Rightarrow> s)"

text \<open>\<^verbatim>\<open>path.join(dir, file)\<close> for the directories of the program (\<^verbatim>\<open>./\<close> is normalised away).\<close>

definition path_join :: "jsstring \<Rightarrow> jsstring \<Rightarrow> jsstring" where
  "path_join dir file = dir @ [slash] @ file"

definition audioDir :: jsstring where
  "audioDir = js ''audio_files''"

definition mediaDir :: jsstring where
  "mediaDir = js ''media_files''"

definition visitDocumentsDir :: jsstring where
  "visitDocumentsDir = js ''visit_documents''"

section \<open>PIN format\<close>

text \<open>\<^verbatim>\<open>/^\d{6}$/.test(pin)\<close>: \<^verbatim>\<open>\d\<close> is \<open>0..9\<close>, and without the \<^verbatim>\<open>m\<close> flag the anchors
  are the two ends of the input.\<close>

definition is_digit :: "nat \<Rightarrow> bool" where
  "is_digit c = (48 \<le> c \<and> c \<le> 57)"

definition isValidPin :: "jsstring \<Rightarrow> bool" where
  "isValidPin pin = (length pin = 6 \<and> list_all is_digit pin)"

section \<open>Extraction result and report formatter\<close>

text \<open>
  The extraction result is the JSON object \<^verbatim>\<open>response.data.dados\<close>, typed after the
  fields the formatter reads. An absent, \<^verbatim>\<open>null\<close> or \<^verbatim>\<open>undefined\<close> field is \<open>None\<close>.

  A vital sign is a JSON number or a JSON string. A number that is an integer of
  magnitude below \<open>2^53\<close> is \<open>Num\<close>: \<^verbatim>\<open>JSON.parse\<close> keeps it exactly and a template
  literal prints its decimal digits. Every other number (non-integral, or beyond that
  range, where the double is rounded and may print with an exponent) is \<open>Dbl\<close>, given by
  the text the host prints for it; such a number is not zero, hence truthy.
\<close>

typedef safe_int = "{n :: int. - 9007199254740991 \<le> n \<and> n \<le> 9007199254740991}"
  by (rule exI [of _ 0]) simp

datatype scalar = Num safe_int | Dbl jsstring | Str jsstring

definition truthy :: "scalar option \<Rightarrow> bool" where
  "truthy x =
     (case x of
        None \<Rightarrow> False
      | Some (Num n) \<Rightarrow> Rep_safe_int n \<noteq> 0
      | Some (Dbl t) \<Rightarrow> True
      | Some (Str s) \<Rightarrow> s \<noteq> [])"

definition show_scalar :: "scalar option \<Rightarrow> jsstring" where
  "show_scalar x =
     (case x of
        None \<Rightarrow> js ''undefined''
      | Some (Num n) \<Rightarrow> show_int (Rep_safe_int n)
      | Some (Dbl t) \<Rightarrow> t
      | Some (Str s) \<Rightarrow> s)"

definition truthy_str :: "jsstring option \<Rightarrow> bool" where
  "truthy_str x = (case x of None \<Rightarrow> False | Some s \<Rightarrow> s \<noteq> [])"

text \<open>
  A list field is read as \<^verbatim>\<open>x && x.length > 0\<close> and then \<^verbatim>\<open>x.forEach(...)\<close>. \<open>Array\<close> is a
  JSON array. \<open>NotArray\<close> is a value that passes the test without being an array (a
  non-empty string, an object with a positive \<^verbatim>\<open>length\<close>): \<^verbatim>\<open>forEach\<close> is not a function
  and the call throws a \<^verbatim>\<open>TypeError\<close>. A value that fails the test (a number, an object
  without \<^verbatim>\<open>length\<close>) is skipped like an absent field, and is \<open>None\<close>. An entry of
  \<^verbatim>\<open>medications_administered\<close> may be \<^verbatim>\<open>null\<close> (\<open>None\<close>): reading \<^verbatim>\<open>med.name\<close> throws.
\<close>

datatype error = TypeError

datatype 'a js_list = Array "'a list" | NotArray

record vitals =
  bp_systolic :: "scalar option"
  bp_diastolic :: "scalar option"
  hr :: "scalar option"
  temp_c :: "scalar option"
  spo2 :: "scalar option"

record medication =
  name :: "jsstring option"
  dose :: "jsstring option"
  route :: "jsstring option"
  time :: "jsstring option"

record report =
  patient_state :: "jsstring option"
  vitals :: "vitals option"
  medications_in_use :: "jsstring js_list option"
  medications_administered :: "medication option js_list option"
  materials_used :: "jsstring js_list option"
  interventions :: "jsstring js_list option"
  recommendations :: "jsstring js_list option"
  observations :: "jsstring option"
  data_processamento :: "jsstring option"

text \<open>
  \<open>formatReportForWhatsApp\<close> starts from the title and runs nine \<^verbatim>\<open>if\<close> blocks, each
  appending to \<^verbatim>\<open>message\<close>. Each block is one function here, giving the text the block
  appends (the empty string when its condition is false), or the error it throws.
\<close>

definition report_title :: jsstring where
  "report_title = [55357, 56523] @ js '' *RELAT'' @ [211] @ js ''RIO DE VISITA DOMICILIAR*\<newline>\<newline>''"

definition patient_state_block :: "report \<Rightarrow> jsstring" where
  "patient_state_block r =
     (case patient_state r of
        None \<Rightarrow> []
      | Some s \<Rightarrow>
          if s \<noteq> [] then [55357, 56420] @ js '' *Estado do Paciente:* '' @ s @ js ''\<newline>\<newline>''
          else [])"

definition vitals_block :: "report \<Rightarrow> jsstring" where
  "vitals_block r =
     (case vitals r of
        None \<Rightarrow> []
      | Some v \<Rightarrow>
          [55358, 56954] @ js '' *SINAIS VITAIS:*\<newline>''
          @ (if truthy (bp_systolic v) \<and> truthy (bp_diastolic v)
             then [8226] @ js '' PA: '' @ show_scalar (bp_systolic v) @ js ''/''
                  @ show_scalar (bp_diastolic v) @ js '' mmHg\<newline>''
             else [])
          @ (if truthy (hr v) then [8226] @ js '' FC: '' @ show_scalar (hr v) @ js '' bpm\<newline>''
             else [])
          @ (if truthy (temp_c v)
             then [8226] @ js '' Temperatura: '' @ show_scalar (temp_c v) @ [176] @ js ''C\<newline>''
             else [])
          @ (if truthy (spo2 v) then [8226] @ js '' SpO2: '' @ show_scalar (spo2 v) @ js ''%\<newline>''
             else [])
          @ js ''\<newline>'')"

text \<open>The four plain lists share one shape: header, one bullet line per element, a blank line.\<close>

definition bullet_list :: "jsstring \<Rightarrow> jsstring js_list option \<Rightarrow> error + jsstring" where
  "bullet_list header xs =
     (case xs of
        None \<Rightarrow> Inr []
      | Some NotArray \<Rightarrow> Inl TypeError
      | Some (Array l) \<Rightarrow>
          if length l > 0
          then Inr (header @ concat (map (\<lambda>x. [8226] @ js '' '' @ x @ js ''\<newline>'') l)
                    @ js ''\<newline>'')
          else Inr [])"

definition medications_in_use_block :: "report \<Rightarrow> error + jsstring" where
  "medications_in_use_block r =
     bullet_list ([55357, 56458] @ js '' *MEDICAMENTOS EM USO:*\<newline>'') (medications_in_use r)"

definition medication_entry :: "medication \<Rightarrow> jsstring" where
  "medication_entry med =
     [8226] @ js '' *'' @ or_default (name med) (js ''N/A'') @ js ''*\<newline>''
     @ (if truthy_str (dose med) then js ''  Dose: '' @ template_opt (dose med) @ js ''\<newline>'' else [])
     @ (if truthy_str (route med) then js ''  Via: '' @ template_opt (route med) @ js ''\<newline>'' else [])
     @ (if truthy_str (time med)
        then js ''  Hor'' @ [225] @ js ''rio: '' @ template_opt (time med) @ js ''\<newline>'' else [])
     @ js ''\<newline>''"

text \<open>The \<^verbatim>\<open>forEach\<close> over the administered medications: a \<^verbatim>\<open>null\<close> entry throws.\<close>

fun medication_entries :: "medication option list \<Rightarrow> error + jsstring" where
  "medication_entries [] = Inr []"
| "medication_entries (None # meds) = Inl TypeError"
| "medication_entries (Some med # meds) =
     (case medication_entries meds of
        Inl e \<Rightarrow> Inl e
      | Inr t \<Rightarrow> Inr (medication_entry med @ t))"

definition medications_administered_block :: "report \<Rightarrow> error + jsstring" where
  "medications_administered_block r =
     (case medications_administered r of
        None \<Rightarrow> Inr []
      | Some NotArray \<Rightarrow> Inl TypeError
      | Some (Array l) \<Rightarrow>
          if length l > 0
          then (case medication_entries l of
                  Inl e \<Rightarrow> Inl e
                | Inr t \<Rightarrow> Inr ([55357, 56457] @ js '' *MEDICAMENTOS ADMINISTRADOS:*\<newline>'' @ t))
          else Inr [])"

definition materials_used_block :: "report \<Rightarrow> error + jsstring" where
  "materials_used_block r =
     bullet_list ([55358, 56816] @ js '' *MATERIAIS UTILIZADOS:*\<newline>'') (materials_used r)"

definition interventions_block :: "report \<Rightarrow> error + jsstring" where
  "interventions_block r =
     bullet_list ([55357, 56615] @ js '' *INTERVEN'' @ [199, 213] @ js ''ES REALIZADAS:*\<newline>'')
       (interventions r)"

definition recommendations_block :: "report \<Rightarrow> error + jsstring" where
  "recommendations_block r =
     bullet_list ([55357, 56541] @ js '' *RECOMENDA'' @ [199, 213] @ js ''ES:*\<newline>'')
       (recommendations r)"

definition observations_block :: "report \<Rightarrow> jsstring" where
  "observations_block r =
     (case observations r of
        None \<Rightarrow> []
      | Some s \<Rightarrow>
          if s \<noteq> []
          then [55357, 56493] @ js '' *OBSERVA'' @ [199, 213] @ js ''ES:*\<newline>'' @ s @ js ''\<newline>\<newline>''
          else [])"

text \<open>
  \<^verbatim>\<open>new Date(x).toLocaleString('pt-BR')\<close> is the host's; it is the parameter
  \<open>toLocaleString\<close>.
\<close>

definition data_processamento_block :: "(jsstring \<Rightarrow> jsstring) \<Rightarrow> report \<Rightarrow> jsstring" where
  "data_processamento_block toLocaleString r =
     (case data_processamento r of
        None \<Rightarrow> []
      | Some s \<Rightarrow>
          if s \<noteq> [] then [9200] @ js '' *Processado em:* '' @ toLocaleString s else [])"

text \<open>
  The blocks in the order of the source; the first block that throws ends the call, and
  the text built so far is lost with it.
\<close>

definition formatReportForWhatsApp :: "(jsstring \<Rightarrow> jsstring) \<Rightarrow> report \<Rightarrow> error + jsstring" where
  "formatReportForWhatsApp toLocaleString reportData =
     (case medications_in_use_block reportData of
        Inl e \<Rightarrow> Inl e
      | Inr in_use \<Rightarrow>
     (case medications_administered_block reportData of
        Inl e \<Rightarrow> Inl e
      | Inr administered \<Rightarrow>
     (case materials_used_block reportData of
        Inl e \<Rightarrow> Inl e
      | Inr materials \<Rightarrow>
     (case interventions_block reportData of
        Inl e \<Rightarrow> Inl e
      | Inr performed \<Rightarrow>
     (case recommendations_block reportData of
        Inl e \<Rightarrow> Inl e
      | Inr recommended \<Rightarrow>
          Inr (report_title
               @ patient_state_block reportData
               @ vitals_block reportData
               @ in_use
               @ administered
               @ materials
               @ performed
               @ recommended
               @ observations_block reportData
               @ data_processamento_block toLocaleString reportData))))))"

section \<open>Sessions, messages and the outside world\<close>

text \<open>\<open>SESSION_STATES\<close>; a new session has \<^verbatim>\<open>state: null\<close>, which is \<open>None\<close>.\<close>

datatype session_state = WAITING_PIN | AUTHENTICATED | DOCUMENTING_VISIT

record session =
  state :: "session_state option"
  pin :: "jsstring option"
  visitDocuments :: "jsstring list"
  visitTexts :: "jsstring list"

definition new_session :: session where
  "new_session = \<lparr>state = None, pin = None, visitDocuments = [], visitTexts = []\<rparr>"

text \<open>
  \<open>userSessions\<close> is a \<^verbatim>\<open>Map\<close> from user id to a mutable session object; the model keeps
  the sessions in a map and writes a changed session back under its key.
\<close>

type_synonym registry = "jsstring \<rightharpoonup> session"

definition getUserSession :: "registry \<Rightarrow> jsstring \<Rightarrow> session \<times> registry" where
  "getUserSession userSessions userId =
     (case userSessions userId of
        None \<Rightarrow> (new_session, userSessions(userId \<mapsto> new_session))
      | Some s \<Rightarrow> (s, userSessions))"

text \<open>
  The fields of an inbound message the conversation reads: \<^verbatim>\<open>contact.id.user\<close>,
  \<^verbatim>\<open>message.id.id\<close>, \<^verbatim>\<open>message.type\<close>, \<^verbatim>\<open>message.body\<close> (an undefined body is the empty
  string: the source tests \<^verbatim>\<open>message.body ? ... : ''\<close>) and \<^verbatim>\<open>message.hasMedia\<close>.
\<close>

record message =
  sender :: jsstring
  msg_id :: jsstring
  mtype :: jsstring
  body :: jsstring
  hasMedia :: bool

text \<open>
  What the collaborators answer while one message is handled:
  \<^item> \<open>downloaded\<close>: \<^verbatim>\<open>message.downloadMedia()\<close> throws, yields nothing, or yields a media
    object with an optional mimetype and its data;
  \<^item> \<open>now1\<close>, \<open>now2\<close>: the first and second reading of \<^verbatim>\<open>Date.now()\<close>;
  \<^item> \<open>write_ok\<close>: whether \<^verbatim>\<open>fs.writeFileSync\<close> returns (it throws otherwise);
  \<^item> \<open>ffmpeg_available\<close>, \<open>ffmpeg_converts\<close>, \<open>wav_data\<close>: what \<open>checkFFmpegAvailable\<close> and
    \<open>convertAudioToWav\<close> resolve to, and the file a successful conversion leaves;
  \<^item> \<open>send_ok k\<close>: whether the \<open>k\<close>-th call of \<open>sendBotMessage\<close> in this handler returns
    (it throws when both send methods fail);
  \<^item> \<open>api_reply\<close>: the HTTP call returns a body with \<^verbatim>\<open>sucesso\<close>, \<^verbatim>\<open>dados\<close>, \<^verbatim>\<open>erro\<close>, or
    throws (timeout, connection error, status outside 2xx) with a message.
\<close>

datatype download = DownloadThrows | NoMedia | Media "jsstring option" jsstring

datatype api_response =
  Responded bool "report option" "jsstring option"
| RequestThrows jsstring

record env =
  downloaded :: download
  now1 :: nat
  now2 :: nat
  write_ok :: bool
  ffmpeg_available :: bool
  ffmpeg_converts :: bool
  wav_data :: jsstring
  send_ok :: "nat \<Rightarrow> bool"
  api_reply :: api_response

text \<open>The directories on disk: a map from path to content.\<close>

type_synonym disk = "jsstring \<rightharpoonup> jsstring"

section \<open>Artifact store: \<open>handleMediaMessage\<close>\<close>

text \<open>
  Returns \<open>savedFiles\<close> with the session and the disk after the call. Every exception of
  a branch (download, \<^verbatim>\<open>media.mimetype.split\<close> on an undefined mimetype, the write) is
  caught by the branch's own \<^verbatim>\<open>try\<close>, leaving \<open>savedFiles\<close> as it was.
\<close>

definition handleMediaMessage ::
  "env \<Rightarrow> message \<Rightarrow> session \<Rightarrow> disk \<Rightarrow> bool \<Rightarrow> jsstring list \<times> session \<times> disk" where
  "handleMediaMessage e m s d isVisitDocument =
     (if mtype m = js ''ptt'' \<or> mtype m = js ''audio'' then
        (case downloaded e of
           DownloadThrows \<Rightarrow> ([], s, d)
         | NoMedia \<Rightarrow> ([], s, d)
         | Media None mdata \<Rightarrow> ([], s, d)
         | Media (Some mimetype) mdata \<Rightarrow>
             (let originalExtension = or_default (split_second mimetype) (js ''ogg'');
                  originalFileName =
                    js ''audio_'' @ show_nat (now1 e) @ js ''_'' @ msg_id m @ js ''.'' @ originalExtension;
                  targetDir = (if isVisitDocument then visitDocumentsDir else audioDir);
                  originalPath = path_join targetDir originalFileName
              in if \<not> write_ok e then ([], s, d)
                 else
                   (let d1 = d(originalPath \<mapsto> mdata);
                        wavFileName = js ''audio_'' @ show_nat (now2 e) @ js ''_'' @ msg_id m @ js ''.wav'';
                        wavPath = path_join targetDir wavFileName;
                        converted = (ffmpeg_available e \<and> ffmpeg_converts e);
                        savedFiles = (if converted then [originalFileName, wavFileName]
                                      else [originalFileName]);
                        d2 = (if converted then d1(wavPath \<mapsto> wav_data e) else d1)
                    in (savedFiles,
                        if isVisitDocument
                        then s\<lparr>visitDocuments := visitDocuments s @ savedFiles\<rparr> else s,
                        d2))))
      else if hasMedia m then
        (case downloaded e of
           DownloadThrows \<Rightarrow> ([], s, d)
         | NoMedia \<Rightarrow> ([], s, d)
         | Media None mdata \<Rightarrow> ([], s, d)
         | Media (Some mimetype) mdata \<Rightarrow>
             if mimetype = [] then ([], s, d)
             else
               (let extension = or_default (split_second mimetype) (js ''bin'');
                    mediaFileName =
                      mtype m @ js ''_'' @ show_nat (now1 e) @ js ''_'' @ msg_id m @ js ''.'' @ extension;
                    targetDir = (if isVisitDocument then visitDocumentsDir else mediaDir);
                    mediaPath = path_join targetDir mediaFileName
                in if \<not> write_ok e then ([], s, d)
                   else ([mediaFileName],
                         if isVisitDocument
                         then s\<lparr>visitDocuments := visitDocuments s @ [mediaFileName]\<rparr> else s,
                         d(mediaPath \<mapsto> mdata))))
      else ([], s, d))"

section \<open>Hand-off: \<open>sendDocumentsToAPI\<close>\<close>

text \<open>
  The multipart form: \<^verbatim>\<open>api_key\<close>, one \<^verbatim>\<open>texts\<close> part per note, one \<^verbatim>\<open>files\<close> part
  (buffer, file name) per collected file that exists on disk.
\<close>

record form_data =
  api_key :: jsstring
  texts :: "jsstring list"
  files :: "(jsstring \<times> jsstring) list"

record api_result =
  success :: bool
  data :: "report option"
  error :: "jsstring option"

definition build_form :: "jsstring \<Rightarrow> session \<Rightarrow> disk \<Rightarrow> form_data" where
  "build_form GEMINI_API_KEY s d =
     \<lparr>api_key = GEMINI_API_KEY,
      texts = visitTexts s,
      files = List.map_filter
                (\<lambda>fileName. case d (path_join visitDocumentsDir fileName) of
                                None \<Rightarrow> None
                              | Some fileBuffer \<Rightarrow> Some (fileBuffer, fileName))
                (visitDocuments s)\<rparr>"

definition sendDocumentsToAPI ::
  "jsstring \<Rightarrow> env \<Rightarrow> session \<Rightarrow> disk \<Rightarrow> form_data \<times> api_result" where
  "sendDocumentsToAPI GEMINI_API_KEY e s d =
     (build_form GEMINI_API_KEY s d,
      case api_reply e of
        Responded sucesso dados erro \<Rightarrow>
          if sucesso then \<lparr>success = True, data = dados, error = None\<rparr>
          else \<lparr>success = False, data = None, error = erro\<rparr>
      | RequestThrows msg \<Rightarrow> \<lparr>success = False, data = None, error = Some msg\<rparr>)"

section \<open>Replies\<close>

definition documentReceivedMessage :: jsstring where
  "documentReceivedMessage =
     [9989] @ js '' Documento(s) recebido(s) e salvo(s)!\<newline>\<newline>Continue enviando mais documentos ou digite \"0\" ou \"sair\" para finalizar.''"

definition greetingMessage :: jsstring where
  "greetingMessage = js ''Ol'' @ [225] @ js ''! Envie o seu PIN para realizar o login.''"

definition menuMessage :: jsstring where
  "menuMessage =
     js ''PIN aceito! '' @ [9989] @ js ''\<newline>\<newline>O que voc'' @ [234] @ js '' deseja fazer?\<newline>\<newline>1''
     @ [65039, 8419] @ js '' Ver visitas agendadas\<newline>2'' @ [65039, 8419]
     @ js '' Documentar visita\<newline>\<newline>Digite 1 ou 2 para escolher uma op'' @ [231, 227] @ js ''o.''"

definition pinInvalidMessage :: jsstring where
  "pinInvalidMessage =
     js ''PIN inv'' @ [225] @ js ''lido. Por favor, envie um PIN de 6 d'' @ [237] @ js ''gitos.''"

definition visitsMessage :: jsstring where
  "visitsMessage =
     [55357, 56517] @ js '' Funcionalidade \"Ver visitas agendadas\" em desenvolvimento.\<newline>\<newline>Digite 2 para documentar visita ou envie um novo PIN para reiniciar.''"

definition documentationModeMessage :: jsstring where
  "documentationModeMessage =
     [55357, 56541] @ js '' Modo documenta'' @ [231, 227]
     @ js ''o ativado!\<newline>\<newline>Aberto a receber os documentos da visita:\<newline>'' @ [8226]
     @ js '' Envie arquivos, fotos, '' @ [225] @ js ''udios ou texto escrito\<newline>'' @ [8226]
     @ js '' Digite \"0\" ou \"sair\" quando terminar''"

definition invalidOptionMessage :: jsstring where
  "invalidOptionMessage =
     js ''Op'' @ [231, 227] @ js ''o inv'' @ [225] @ js ''lida. Digite:\<newline>1'' @ [65039, 8419]
     @ js '' Ver visitas agendadas\<newline>2'' @ [65039, 8419] @ js '' Documentar visita''"

definition processingMessage :: jsstring where
  "processingMessage =
     [9203] @ js '' Processando dados com IA...\<newline>\<newline>Aguarde enquanto analiso os documentos da visita.''"

definition reportSentMessage :: jsstring where
  "reportSentMessage =
     js ''\<newline>'' @ [9989] @ js '' Documenta'' @ [231, 227] @ js ''o da visita conclu'' @ [237]
     @ js ''da com sucesso!\<newline>\<newline>Digite um novo PIN para iniciar uma nova sess'' @ [227] @ js ''o.''"

definition reportFallbackMessage :: jsstring where
  "reportFallbackMessage =
     [10060] @ js '' Erro ao enviar relat'' @ [243]
     @ js ''rio. Tente novamente.\<newline>\<newline>Digite um novo PIN para iniciar uma nova sess'' @ [227] @ js ''o.''"

definition errorMessage :: "jsstring option \<Rightarrow> jsstring" where
  "errorMessage err =
     [10060] @ js '' Erro ao processar documentos:\<newline>'' @ template_opt err
     @ js ''\<newline>\<newline>Digite um novo PIN para tentar novamente.''"

definition textReceivedMessage :: jsstring where
  "textReceivedMessage =
     [9989] @ js '' Texto recebido e salvo!\<newline>\<newline>Continue enviando mais documentos ou digite \"0\" ou \"sair\" para finalizar.''"

section \<open>Conversation: \<open>handleBotConversation\<close>\<close>

text \<open>
  What handling one message leaves: the session and the disk, the texts handed to
  \<open>sendBotMessage\<close> in order (\<open>replies\<close>), the form posted to the extraction service if
  any (\<open>posted\<close>), and whether the handler ended by throwing (\<open>raised\<close>; \<open>processMessage\<close>
  catches and logs it). The mutations made before a throw stay.
\<close>

record outcome =
  session_after :: session
  disk_after :: disk
  replies :: "jsstring list"
  posted :: "form_data option"
  raised :: bool

definition silent :: "session \<Rightarrow> disk \<Rightarrow> outcome" where
  "silent s d = \<lparr>session_after = s, disk_after = d, replies = [], posted = None, raised = False\<rparr>"

text \<open>A branch that sends one text and rethrows a send failure.\<close>

definition say :: "env \<Rightarrow> session \<Rightarrow> disk \<Rightarrow> jsstring \<Rightarrow> outcome" where
  "say e s d txt =
     \<lparr>session_after = s, disk_after = d, replies = [txt], posted = None, raised = (\<not> send_ok e 0)\<rparr>"

text \<open>
  The finalize branch of \<open>DOCUMENTING_VISIT\<close>. Send 0 is the processing notice; after a
  result with data, send 1 is the report and send 2 the closing text, the fallback text
  following the first of the two that fails; every send failure here is caught. The
  call of \<open>formatReportForWhatsApp\<close> stands outside every \<^verbatim>\<open>try\<close> and before the reset:
  when it throws, the handler ends there, with the session as it was.
\<close>

definition finalize ::
  "jsstring \<Rightarrow> (jsstring \<Rightarrow> jsstring) \<Rightarrow> env \<Rightarrow> session \<Rightarrow> disk \<Rightarrow> outcome" where
  "finalize GEMINI_API_KEY toLocaleString e s d =
     (case sendDocumentsToAPI GEMINI_API_KEY e s d of
        (formData, apiResult) \<Rightarrow>
          (let reset = s\<lparr>state := None, visitDocuments := [], visitTexts := []\<rparr>;
               failed = \<lparr>session_after = reset, disk_after = d,
                         replies = [processingMessage, errorMessage (error apiResult)],
                         posted = Some formData, raised = False\<rparr>
           in if success apiResult then
                (case data apiResult of
                   None \<Rightarrow> failed
                 | Some reportData \<Rightarrow>
                     (case formatReportForWhatsApp toLocaleString reportData of
                        Inl err \<Rightarrow>
                          \<lparr>session_after = s, disk_after = d, replies = [processingMessage],
                           posted = Some formData, raised = True\<rparr>
                      | Inr formattedReport \<Rightarrow>
                          \<lparr>session_after = reset, disk_after = d,
                           replies =
                             processingMessage # formattedReport #
                             (if send_ok e 1
                              then reportSentMessage #
                                   (if send_ok e 2 then [] else [reportFallbackMessage])
                              else [reportFallbackMessage]),
                           posted = Some formData, raised = False\<rparr>))
              else failed))"

text \<open>
  The media branch of \<open>DOCUMENTING_VISIT\<close> from the call of \<open>handleMediaMessage\<close> on. The
  state test that leads here is made before the call; the call waits for the download,
  and what follows the wait works on the session object as it is by then.
\<close>

definition media_in_visit :: "env \<Rightarrow> message \<Rightarrow> session \<Rightarrow> disk \<Rightarrow> outcome" where
  "media_in_visit e m s d =
     (case handleMediaMessage e m s d True of
        (savedFiles, s', d') \<Rightarrow>
          if length savedFiles > 0
          then \<lparr>session_after = s', disk_after = d', replies = [documentReceivedMessage],
                posted = None, raised = False\<rparr>
          else silent s' d')"

definition botConversation ::
  "jsstring \<Rightarrow> (jsstring \<Rightarrow> jsstring) \<Rightarrow> env \<Rightarrow> message \<Rightarrow> session \<Rightarrow> disk \<Rightarrow> outcome" where
  "botConversation GEMINI_API_KEY toLocaleString e m s d =
     (let userMessage = (if body m \<noteq> [] then trim (body m) else [])
      in if userMessage = [] \<and> mtype m = js ''chat'' then silent s d
         else if userMessage = [] \<and> mtype m \<noteq> js ''chat'' \<and> state s = Some DOCUMENTING_VISIT
         then media_in_visit e m s d
         else if userMessage = [] then silent s d
         else if state s = None then say e (s\<lparr>state := Some WAITING_PIN\<rparr>) d greetingMessage
         else if state s = Some WAITING_PIN then
           (if isValidPin userMessage
            then say e (s\<lparr>pin := Some userMessage, state := Some AUTHENTICATED\<rparr>) d menuMessage
            else say e s d pinInvalidMessage)
         else if state s = Some AUTHENTICATED then
           (if userMessage = js ''1'' then say e s d visitsMessage
            else if userMessage = js ''2''
            then say e (s\<lparr>state := Some DOCUMENTING_VISIT, visitDocuments := [], visitTexts := []\<rparr>) d
                   documentationModeMessage
            else if isValidPin userMessage
            then say e (s\<lparr>pin := Some userMessage, state := Some AUTHENTICATED,
                          visitDocuments := [], visitTexts := []\<rparr>) d menuMessage
            else say e s d invalidOptionMessage)
         else if state s = Some DOCUMENTING_VISIT then
           (if toLowerCase userMessage = js ''0'' \<or> toLowerCase userMessage = js ''sair''
            then finalize GEMINI_API_KEY toLocaleString e s d
            else if mtype m = js ''chat'' \<and> userMessage \<noteq> [] then
              (let textFileName = js ''text_'' @ show_nat (now1 e) @ js ''_'' @ msg_id m @ js ''.txt'';
                   textPath = path_join visitDocumentsDir textFileName
               in if \<not> write_ok e
                  then \<lparr>session_after = s, disk_after = d, replies = [], posted = None, raised = True\<rparr>
                  else \<lparr>session_after = s\<lparr>visitTexts := visitTexts s @ [userMessage]\<rparr>,
                        disk_after = d(textPath \<mapsto> userMessage),
                        replies = [textReceivedMessage], posted = None, raised = False\<rparr>)
            else silent s d)
         else silent s d)"


text \<open>
  \<open>handleBotConversation\<close>: look the sender's session up (creating it on first contact),
  run the conversation on it, and keep the mutated session under the sender's key.
\<close>

record world =
  userSessions :: registry
  disk :: disk

definition handleBotConversation ::
  "jsstring \<Rightarrow> (jsstring \<Rightarrow> jsstring) \<Rightarrow> env \<Rightarrow> message \<Rightarrow> world \<Rightarrow> world \<times> outcome" where
  "handleBotConversation GEMINI_API_KEY toLocaleString e m w =
     (case getUserSession (userSessions w) (sender m) of
        (s, reg) \<Rightarrow>
          (let out = botConversation GEMINI_API_KEY toLocaleString e m s (disk w)
           in (\<lparr>userSessions = reg(sender m \<mapsto> session_after out), disk = disk_after out\<rparr>, out)))"

text \<open>
  Messages handled in turn, each handler running to its end before the next message is
  taken, with what each one leaves. This is the program when the messages of a sender
  do not overtake one another; the program itself does not enforce it.
\<close>

fun run ::
  "jsstring \<Rightarrow> (jsstring \<Rightarrow> jsstring) \<Rightarrow> (env \<times> message) list \<Rightarrow> world \<Rightarrow> world \<times> outcome list" where
  "run key toLocaleString [] w = (w, [])"
| "run key toLocaleString ((e, m) # evs) w =
     (case handleBotConversation key toLocaleString e m w of
        (w', out) \<Rightarrow>
          (case run key toLocaleString evs w' of (w'', outs) \<Rightarrow> (w'', out # outs)))"


section \<open>Properties in the words of the specification\<close>

text \<open>
  "Exactly six ASCII digits", as the specification words the PIN format: the text of a
  six-character string over \<open>0..9\<close>.
\<close>

definition six_ascii_digits :: "jsstring \<Rightarrow> bool" where
  "six_ascii_digits u = (\<exists>ds. length ds = 6 \<and> set ds \<subseteq> set ''0123456789'' \<and> u = js ds)"

text \<open>
  "Case-insensitively matches" a lower-case ASCII word: the same length, and each unit
  is the word's character or its upper-case letter.
\<close>

definition same_ignoring_case :: "string \<Rightarrow> jsstring \<Rightarrow> bool" where
  "same_ignoring_case w u =
     list_all2
       (\<lambda>ch c. c = of_char ch
          \<or> (97 \<le> (of_char ch :: nat) \<and> (of_char ch :: nat) \<le> 122 \<and> c + 32 = of_char ch))
       w u"

section \<open>Invariant and observations\<close>



text \<open>
  The extraction service answers a success with a result on which the formatter throws.
\<close>

definition formatter_throws :: "(jsstring \<Rightarrow> jsstring) \<Rightarrow> env \<Rightarrow> bool" where
  "formatter_throws toLocaleString e =
     (case api_reply e of
        Responded sucesso dados erro \<Rightarrow>
          (case dados of
             None \<Rightarrow> False
           | Some reportData \<Rightarrow> sucesso \<and> isl (formatReportForWhatsApp toLocaleString reportData))
      | RequestThrows msg \<Rightarrow> False)"

text \<open>The session \<open>getUserSession\<close> hands out for a user: the stored one, or a new one.\<close>

definition session_of :: "world \<Rightarrow> jsstring \<Rightarrow> session" where
  "session_of w u = (case userSessions w u of None \<Rightarrow> new_session | Some s \<Rightarrow> s)"

text \<open>
  What the outside sees of one handled message: the replies and the posted form. A
  session, an outcome and a world with the stored PIN blanked; two runs that agree on
  these agree on everything but the PIN.
\<close>

definition observable :: "outcome \<Rightarrow> jsstring list \<times> form_data option" where
  "observable out = (replies out, posted out)"

definition forget_pin :: "session \<Rightarrow> session" where
  "forget_pin s = s\<lparr>pin := None\<rparr>"

definition blind :: "outcome \<Rightarrow> outcome" where
  "blind out = out\<lparr>session_after := forget_pin (session_after out)\<rparr>"

definition blind_world :: "world \<Rightarrow> world" where
  "blind_world w =
     \<lparr>userSessions = (\<lambda>u. map_option forget_pin (userSessions w u)), disk = disk w\<rparr>"

text \<open>The user's session is in a state in which a valid PIN is accepted.\<close>

definition accepts_pin :: "world \<Rightarrow> jsstring \<Rightarrow> bool" where
  "accepts_pin w u =
     (case userSessions w u of
        None \<Rightarrow> False
      | Some s \<Rightarrow> state s = Some WAITING_PIN \<or> state s = Some AUTHENTICATED)"

section \<open>Sample inputs\<close>

text \<open>
  A quiet environment (no media, every write and send succeeds, no transcoder, the
  extraction service times out), a text message of a fixed sender, and a session in a
  given state with nothing collected.
\<close>

definition env0 :: env where
  "env0 =
     \<lparr>downloaded = NoMedia, now1 = 1700000000000, now2 = 1700000000001, write_ok = True,
      ffmpeg_available = False, ffmpeg_converts = False, wav_data = [], send_ok = (\<lambda>k. True),
      api_reply = RequestThrows (js ''timeout of 60000ms exceeded'')\<rparr>"

definition chat :: "jsstring \<Rightarrow> message" where
  "chat b =
     \<lparr>sender = js ''5511999990000'', msg_id = js ''3EB0A1'', mtype = js ''chat'', body = b,
      hasMedia = False\<rparr>"

definition session_in :: "session_state option \<Rightarrow> session" where
  "session_in st = \<lparr>state = st, pin = None, visitDocuments = [], visitTexts = []\<rparr>"

text \<open>A session in the middle of a visit, with one image and one note collected.\<close>

definition collecting :: session where
  "collecting =
     \<lparr>state = Some DOCUMENTING_VISIT, pin = Some (js ''123456''),
      visitDocuments = [js ''image_1700000000000_3EB0A0.jpeg''],
      visitTexts = [js ''curativo trocado'']\<rparr>"

text \<open>Two administered medications: one without dose and time, one without a name.\<close>

definition dipirona :: medication where
  "dipirona =
     \<lparr>name = Some (js ''Dipirona''), dose = None, route = Some (js ''oral''), time = None\<rparr>"


text \<open>An extraction result in which only the heart rate is set, to 82.\<close>

definition hr_only :: report where
  "hr_only =
     \<lparr>patient_state = None,
      vitals = Some \<lparr>bp_systolic = None, bp_diastolic = None,
                     hr = Some (Num (Abs_safe_int 82)), temp_c = None, spo2 = None\<rparr>,
      medications_in_use = None, medications_administered = None, materials_used = None,
      interventions = None, recommendations = None, observations = None,
      data_processamento = None\<rparr>"

text \<open>
  The extraction service answers with that result; and it answers with its failure flag
  and the same text a timeout carries.
\<close>

definition env_success :: env where
  "env_success = env0\<lparr>api_reply := Responded True (Some hr_only) None\<rparr>"

definition env_refused :: env where
  "env_refused =
     env0\<lparr>api_reply := Responded False None (Some (js ''timeout of 60000ms exceeded''))\<rparr>"


text \<open>
  A result whose list of administered medications holds a \<^verbatim>\<open>null\<close> after its first
  entry, and the service answering with it.
\<close>

definition null_entry :: report where
  "null_entry = hr_only\<lparr>medications_administered := Some (Array [Some dipirona, None])\<rparr>"

definition env_null_entry :: env where
  "env_null_entry = env0\<lparr>api_reply := Responded True (Some null_entry) None\<rparr>"

text \<open>
  An image with a caption and a voice note without one, both from the same sender, and
  the environments in which their download succeeds.
\<close>

definition image_with_caption :: message where
  "image_with_caption =
     \<lparr>sender = js ''5511999990000'', msg_id = js ''3EB0A2'', mtype = js ''image'',
      body = js ''foto da ferida'', hasMedia = True\<rparr>"

definition env_image :: env where
  "env_image = env0\<lparr>downloaded := Media (Some (js ''image/jpeg'')) (js ''/9j/4AAQSkZJRg=='')\<rparr>"

definition voice_note :: message where
  "voice_note =
     \<lparr>sender = js ''5511999990000'', msg_id = js ''3EB0A3'', mtype = js ''ptt'', body = [],
      hasMedia = True\<rparr>"

definition env_voice :: env where
  "env_voice =
     env0\<lparr>downloaded := Media (Some (js ''audio/ogg; codecs=opus'')) (js ''T2dnUwAC'')\<rparr>"

text \<open>The same with the transcoder installed and the conversion failing.\<close>

definition env_voice_unconverted :: env where
  "env_voice_unconverted = env_voice\<lparr>ffmpeg_available := True\<rparr>"


definition waiting_world :: world where
  "waiting_world =
     \<lparr>userSessions = [js ''5511999990000'' \<mapsto> session_in (Some WAITING_PIN)],
      disk = Map.empty\<rparr>"

definition after_pin :: "(env \<times> message) list" where
  "after_pin =
     [(env0, chat (js ''2'')), (env0, chat (js ''curativo trocado'')),
      (env_success, chat (js ''0''))]"

section \<open>Basic facts\<close>

lemma trim_Nil [simp]: "trim [] = []"
  by (simp add: trim_def)

lemma trim_nonempty: "trim b \<noteq> [] \<Longrightarrow> b \<noteq> []"
  by auto

lemma isValidPin_not_menu: "isValidPin u \<Longrightarrow> u \<noteq> [] \<and> u \<noteq> js ''1'' \<and> u \<noteq> js ''2''"
  by (auto simp: isValidPin_def js_def)

lemmas eval_simps =
  js_def trim_def is_js_space_def isValidPin_def is_digit_def chat_def session_in_def

subsection \<open>The conversation, branch by branch\<close>

lemma conv_empty_chat:
  "trim (body m) = [] \<Longrightarrow> mtype m = js ''chat'' \<Longrightarrow> botConversation k f e m s d = silent s d"
  by (cases "body m = []") (simp_all add: botConversation_def)

lemma conv_empty_other:
  "trim (body m) = [] \<Longrightarrow> state s \<noteq> Some DOCUMENTING_VISIT \<Longrightarrow>
   botConversation k f e m s d = silent s d"
  by (cases "body m = []") (simp_all add: botConversation_def)

lemma conv_media:
  "trim (body m) = [] \<Longrightarrow> mtype m \<noteq> js ''chat'' \<Longrightarrow> state s = Some DOCUMENTING_VISIT \<Longrightarrow>
   botConversation k f e m s d = media_in_visit e m s d"
  by (cases "body m = []") (simp_all add: botConversation_def)

lemma conv_new:
  "trim (body m) \<noteq> [] \<Longrightarrow> state s = None \<Longrightarrow>
   botConversation k f e m s d = say e (s\<lparr>state := Some WAITING_PIN\<rparr>) d greetingMessage"
  by (cases "body m = []") (simp_all add: botConversation_def)

lemma conv_waiting:
  "trim (body m) \<noteq> [] \<Longrightarrow> state s = Some WAITING_PIN \<Longrightarrow>
   botConversation k f e m s d =
     (if isValidPin (trim (body m))
      then say e (s\<lparr>pin := Some (trim (body m)), state := Some AUTHENTICATED\<rparr>) d menuMessage
      else say e s d pinInvalidMessage)"
  by (cases "body m = []") (simp_all add: botConversation_def)

lemma conv_authenticated:
  "trim (body m) \<noteq> [] \<Longrightarrow> state s = Some AUTHENTICATED \<Longrightarrow>
   botConversation k f e m s d =
     (if trim (body m) = js ''1'' then say e s d visitsMessage
      else if trim (body m) = js ''2''
      then say e (s\<lparr>state := Some DOCUMENTING_VISIT, visitDocuments := [], visitTexts := []\<rparr>) d
             documentationModeMessage
      else if isValidPin (trim (body m))
      then say e (s\<lparr>pin := Some (trim (body m)), state := Some AUTHENTICATED,
                    visitDocuments := [], visitTexts := []\<rparr>) d menuMessage
      else say e s d invalidOptionMessage)"
  by (cases "body m = []") (simp_all add: botConversation_def)

lemma conv_documenting:
  "trim (body m) \<noteq> [] \<Longrightarrow> state s = Some DOCUMENTING_VISIT \<Longrightarrow>
   botConversation k f e m s d =
     (if toLowerCase (trim (body m)) = js ''0'' \<or> toLowerCase (trim (body m)) = js ''sair''
      then finalize k f e s d
      else if mtype m = js ''chat'' then
        (if \<not> write_ok e
         then \<lparr>session_after = s, disk_after = d, replies = [], posted = None, raised = True\<rparr>
         else \<lparr>session_after = s\<lparr>visitTexts := visitTexts s @ [trim (body m)]\<rparr>,
               disk_after = d(path_join visitDocumentsDir
                 (js ''text_'' @ show_nat (now1 e) @ js ''_'' @ msg_id m @ js ''.txt'') \<mapsto> trim (body m)),
               replies = [textReceivedMessage], posted = None, raised = False\<rparr>)
      else silent s d)"
  by (cases "body m = []") (simp_all add: botConversation_def Let_def)

subsection \<open>The PIN format\<close>

lemma is_digit_iff: "is_digit c \<longleftrightarrow> (\<exists>ch \<in> set ''0123456789''. c = of_char ch)"
proof
  assume "is_digit c"
  then have "c \<in> {48, 49, 50, 51, 52, 53, 54, 55, 56, 57}"
    unfolding is_digit_def by simp arith
  then show "\<exists>ch \<in> set ''0123456789''. c = of_char ch"
    by auto
next
  assume "\<exists>ch \<in> set ''0123456789''. c = of_char ch"
  then show "is_digit c"
    by (auto simp: is_digit_def)
qed

lemma all_digits_iff:
  "list_all is_digit u \<longleftrightarrow> (\<exists>ds. set ds \<subseteq> set ''0123456789'' \<and> u = js ds)"
proof (induction u)
  case Nil
  show ?case by (auto simp: js_def)
next
  case (Cons c u)
  show ?case
  proof
    assume "list_all is_digit (c # u)"
    then have c: "is_digit c" and u: "list_all is_digit u"
      by simp_all
    from c obtain ch where ch: "ch \<in> set ''0123456789''" "c = of_char ch"
      unfolding is_digit_iff by blast
    from u Cons.IH obtain ds where ds: "set ds \<subseteq> set ''0123456789''" "u = js ds"
      by blast
    have "set (ch # ds) \<subseteq> set ''0123456789'' \<and> c # u = js (ch # ds)"
      using ch ds by (simp add: js_def)
    then show "\<exists>ds. set ds \<subseteq> set ''0123456789'' \<and> c # u = js ds"
      by blast
  next
    assume "\<exists>ds. set ds \<subseteq> set ''0123456789'' \<and> c # u = js ds"
    then obtain ds where ds: "set ds \<subseteq> set ''0123456789''" "c # u = js ds"
      by blast
    then obtain ch ds' where "ds = ch # ds'"
      by (cases ds) (auto simp: js_def)
    with ds have "ch \<in> set ''0123456789''" "c = of_char ch"
      "set ds' \<subseteq> set ''0123456789''" "u = js ds'"
      by (auto simp: js_def)
    then have "is_digit c" "list_all is_digit u"
      using is_digit_iff Cons.IH by blast+
    then show "list_all is_digit (c # u)"
      by simp
  qed
qed

lemma isValidPin_iff: "isValidPin u \<longleftrightarrow> six_ascii_digits u"
  unfolding isValidPin_def six_ascii_digits_def all_digits_iff
  by (auto simp: js_def)

subsection \<open>Lower case and the finalize keyword\<close>

lemma lower_unit_nonempty: "lower_unit c \<noteq> []"
  by (simp add: lower_unit_def)

lemma lower_unit_digit: "is_digit c \<Longrightarrow> lower_unit c = [c]"
  by (simp add: lower_unit_def is_digit_def)

lemma toLowerCase_Cons: "toLowerCase (c # u) = lower_unit c @ toLowerCase u"
  by (simp add: toLowerCase_def)

lemma toLowerCase_Nil: "toLowerCase [] = []"
  by (simp add: toLowerCase_def)

lemma toLowerCase_digits: "list_all is_digit u \<Longrightarrow> toLowerCase u = u"
  by (induction u) (simp_all add: toLowerCase_Nil toLowerCase_Cons lower_unit_digit)

lemma toLowerCase_eq_Nil: "toLowerCase u = [] \<longleftrightarrow> u = []"
  by (cases u) (simp_all add: toLowerCase_Nil toLowerCase_Cons lower_unit_nonempty)

lemma lower_head_s: "lower_unit c @ r = 115 # t \<longleftrightarrow> (c = 115 \<or> c = 83) \<and> r = t"
  by (auto simp: lower_unit_def)

lemma lower_head_a: "lower_unit c @ r = 97 # t \<longleftrightarrow> (c = 97 \<or> c = 65) \<and> r = t"
  by (auto simp: lower_unit_def)

lemma lower_head_i:
  "lower_unit c @ r = 105 # t \<longleftrightarrow> (c = 105 \<or> c = 73) \<and> r = t \<or> c = 304 \<and> 775 # r = t"
  by (auto simp: lower_unit_def)

lemma lower_head_r: "lower_unit c @ r = 114 # t \<longleftrightarrow> (c = 114 \<or> c = 82) \<and> r = t"
  by (auto simp: lower_unit_def)

lemma lower_head_0: "lower_unit c @ r = 48 # t \<longleftrightarrow> c = 48 \<and> r = t"
  by (auto simp: lower_unit_def)

lemma lower_unit_letters:
  "lower_unit 115 = [115]" "lower_unit 83 = [115]" "lower_unit 97 = [97]" "lower_unit 65 = [97]"
  "lower_unit 105 = [105]" "lower_unit 73 = [105]" "lower_unit 114 = [114]" "lower_unit 82 = [114]"
  by (simp_all add: lower_unit_def)

lemma toLowerCase_head:
  "toLowerCase u = x # t \<Longrightarrow> \<exists>c u'. u = c # u' \<and> lower_unit c @ toLowerCase u' = x # t"
  by (cases u) (simp_all add: toLowerCase_Nil toLowerCase_Cons)

lemma lower_eq_zero: "toLowerCase u = js ''0'' \<longleftrightarrow> u = js ''0''"
proof
  assume "toLowerCase u = js ''0''"
  then have "toLowerCase u = [48]" by (simp add: js_def)
  then obtain c u' where "u = c # u'" "lower_unit c @ toLowerCase u' = [48]"
    using toLowerCase_head by blast
  then show "u = js ''0''"
    by (simp add: lower_head_0 toLowerCase_eq_Nil js_def)
next
  assume "u = js ''0''"
  then show "toLowerCase u = js ''0''"
    by (simp add: js_def toLowerCase_def lower_unit_def)
qed

lemma same_ignoring_case_zero: "same_ignoring_case ''0'' u \<longleftrightarrow> u = js ''0''"
  by (auto simp: same_ignoring_case_def js_def list_all2_Cons1)

lemma same_ignoring_case_sair:
  "same_ignoring_case ''sair'' u \<longleftrightarrow>
     (\<exists>a b c d. u = [a, b, c, d] \<and> (a = 115 \<or> a = 83) \<and> (b = 97 \<or> b = 65)
        \<and> (c = 105 \<or> c = 73) \<and> (d = 114 \<or> d = 82))"
  by (auto simp: same_ignoring_case_def list_all2_Cons1)

lemma lower_eq_sair: "toLowerCase u = js ''sair'' \<longleftrightarrow> same_ignoring_case ''sair'' u"
proof
  assume "toLowerCase u = js ''sair''"
  then have L: "toLowerCase u = [115, 97, 105, 114]" by (simp add: js_def)
  then obtain a u1 where u: "u = a # u1" and "lower_unit a @ toLowerCase u1 = [115, 97, 105, 114]"
    using toLowerCase_head by blast
  then have a: "a = 115 \<or> a = 83" and 1: "toLowerCase u1 = [97, 105, 114]"
    by (simp_all add: lower_head_s)
  from 1 obtain b u2 where u1: "u1 = b # u2" and "lower_unit b @ toLowerCase u2 = [97, 105, 114]"
    using toLowerCase_head by blast
  then have b: "b = 97 \<or> b = 65" and 2: "toLowerCase u2 = [105, 114]"
    by (simp_all add: lower_head_a)
  from 2 obtain c u3 where u2: "u2 = c # u3" and "lower_unit c @ toLowerCase u3 = [105, 114]"
    using toLowerCase_head by blast
  then have c: "c = 105 \<or> c = 73" and 3: "toLowerCase u3 = [114]"
    by (simp_all add: lower_head_i)
  from 3 obtain d u4 where u3: "u3 = d # u4" and "lower_unit d @ toLowerCase u4 = [114]"
    using toLowerCase_head by blast
  then have d: "d = 114 \<or> d = 82" and "u4 = []"
    by (simp_all add: lower_head_r toLowerCase_eq_Nil)
  with u u1 u2 u3 a b c show "same_ignoring_case ''sair'' u"
    unfolding same_ignoring_case_sair by blast
next
  assume "same_ignoring_case ''sair'' u"
  then obtain a b c d where "u = [a, b, c, d]" "a = 115 \<or> a = 83" "b = 97 \<or> b = 65"
    "c = 105 \<or> c = 73" "d = 114 \<or> d = 82"
    unfolding same_ignoring_case_sair by blast
  then have "toLowerCase u = [115, 97, 105, 114]"
    by (auto simp: toLowerCase_Cons toLowerCase_Nil lower_unit_letters)
  then show "toLowerCase u = js ''sair''"
    by (simp add: js_def)
qed

lemma isValidPin_not_keyword:
  "isValidPin u \<Longrightarrow> toLowerCase u \<noteq> js ''0'' \<and> toLowerCase u \<noteq> js ''sair''"
  by (auto simp: isValidPin_def toLowerCase_digits js_def)

subsection \<open>The finalize branch and the posted form\<close>

lemma finalize_fields:
  "disk_after (finalize k f e s d) = d"
  "posted (finalize k f e s d) = Some (build_form k s d)"
  by (simp_all add: finalize_def sendDocumentsToAPI_def Let_def
      split: api_response.splits option.splits sum.splits)

lemma finalize_rendered:
  assumes "\<not> formatter_throws f e"
  shows "session_after (finalize k f e s d)
           = s\<lparr>state := None, visitDocuments := [], visitTexts := []\<rparr>"
    and "raised (finalize k f e s d) = False"
  using assms
  by (auto simp: finalize_def sendDocumentsToAPI_def formatter_throws_def Let_def
      split: api_response.splits option.splits sum.splits)

lemma finalize_thrown:
  assumes "formatter_throws f e"
  shows "finalize k f e s d =
     \<lparr>session_after = s, disk_after = d, replies = [processingMessage],
      posted = Some (build_form k s d), raised = True\<rparr>"
  using assms
  by (auto simp: finalize_def sendDocumentsToAPI_def formatter_throws_def Let_def
      split: api_response.splits option.splits sum.splits)

lemma finalize_session:
  "session_after (finalize k f e s d) =
     (if formatter_throws f e then s
      else s\<lparr>state := None, visitDocuments := [], visitTexts := []\<rparr>)"
  using finalize_rendered(1) [of f e k s d] finalize_thrown [of f e k s d]
  by (cases "formatter_throws f e") simp_all

lemma posted_silent: "posted (silent s d) = None"
  by (simp add: silent_def)

lemma posted_say: "posted (say e s d t) = None"
  by (simp add: say_def)

lemma posted_iff:
  "posted (botConversation k f e m s d) \<noteq> None \<longleftrightarrow>
     state s = Some DOCUMENTING_VISIT \<and>
     (toLowerCase (trim (body m)) = js ''0'' \<or> toLowerCase (trim (body m)) = js ''sair'')"
proof (cases "trim (body m) = []")
  case True
  have nk: "\<not> (toLowerCase (trim (body m)) = js ''0'' \<or> toLowerCase (trim (body m)) = js ''sair'')"
    using True by (simp add: toLowerCase_Nil js_def)
  show ?thesis
  proof (cases "state s = Some DOCUMENTING_VISIT \<and> mtype m \<noteq> js ''chat''")
    case True
    then show ?thesis
      using nk \<open>trim (body m) = []\<close>
      by (simp add: conv_media media_in_visit_def posted_silent split: prod.splits)
  next
    case False
    then have "botConversation k f e m s d = silent s d"
      using \<open>trim (body m) = []\<close> conv_empty_chat conv_empty_other by blast
    then show ?thesis
      using nk by (simp add: posted_silent)
  qed
next
  case False
  show ?thesis
  proof (cases "state s")
    case None
    then show ?thesis using False by (simp add: conv_new posted_say)
  next
    case (Some st)
    then show ?thesis
      using False
      by (cases st)
         (simp_all add: conv_waiting conv_authenticated conv_documenting posted_say posted_silent
            finalize_fields)
  qed
qed

lemma trim_zero: "trim (body (chat (js ''0''))) = js ''0''"
  by (simp add: eval_simps)

subsection \<open>Media capture\<close>

lemma media_types_not_chat: "js ''ptt'' \<noteq> js ''chat''" "js ''audio'' \<noteq> js ''chat''"
  by (simp_all add: js_def)

lemma audio_raw_only:
  assumes "mtype m = js ''ptt'' \<or> mtype m = js ''audio''"
    and "downloaded e = Media (Some mime) mdata"
    and "write_ok e"
    and "\<not> ffmpeg_available e \<or> \<not> ffmpeg_converts e"
  shows "handleMediaMessage e m s d True =
     ([js ''audio_'' @ show_nat (now1 e) @ js ''_'' @ msg_id m @ js ''.''
         @ or_default (split_second mime) (js ''ogg'')],
      s\<lparr>visitDocuments := visitDocuments s
         @ [js ''audio_'' @ show_nat (now1 e) @ js ''_'' @ msg_id m @ js ''.''
              @ or_default (split_second mime) (js ''ogg'')]\<rparr>,
      d(path_join visitDocumentsDir
          (js ''audio_'' @ show_nat (now1 e) @ js ''_'' @ msg_id m @ js ''.''
             @ or_default (split_second mime) (js ''ogg'')) \<mapsto> mdata))"
  using assms by (auto simp: handleMediaMessage_def Let_def)

lemma voice_name:
  "js ''audio_'' @ show_nat 1700000000000 @ js ''_'' @ msg_id voice_note @ js ''.''
     @ or_default (split_second (js ''audio/ogg; codecs=opus'')) (js ''ogg'')
   = js ''audio_1700000000000_3EB0A3.ogg; codecs=opus''"
  by (simp add: voice_note_def show_nat.simps js_def or_default_def split_second_def slash_def)

lemma image_name:
  "mtype image_with_caption @ js ''_'' @ show_nat (now1 env_image) @ js ''_''
     @ msg_id image_with_caption @ js ''.'' @ or_default (split_second (js ''image/jpeg'')) (js ''bin'')
   = js ''image_1700000000000_3EB0A2.jpeg''"
  by (simp add: env_image_def env0_def image_with_caption_def show_nat.simps js_def or_default_def
      split_second_def slash_def)

subsection \<open>Error text and report blocks\<close>

lemma errorMessage_eq: "errorMessage a = errorMessage b \<longleftrightarrow> template_opt a = template_opt b"
  by (simp add: errorMessage_def)

lemma bullet_list_None: "bullet_list h None = Inr []"
  by (simp add: bullet_list_def)

lemma safe_82: "Rep_safe_int (Abs_safe_int 82) = 82"
  by (simp add: Abs_safe_int_inverse)

lemma error_eq: "(x :: error) = y"
  by (cases x; cases y) simp

lemma format_blocks:
  assumes "medications_in_use_block r = Inr in_use"
    and "medications_administered_block r = Inr administered"
    and "materials_used_block r = Inr materials"
    and "interventions_block r = Inr performed"
    and "recommendations_block r = Inr recommended"
  shows "formatReportForWhatsApp f r =
     Inr (report_title @ patient_state_block r @ vitals_block r @ in_use @ administered
          @ materials @ performed @ recommended @ observations_block r
          @ data_processamento_block f r)"
  using assms by (simp add: formatReportForWhatsApp_def)

lemma format_throws:
  assumes "medications_in_use_block r = Inl TypeError
    \<or> medications_administered_block r = Inl TypeError
    \<or> materials_used_block r = Inl TypeError
    \<or> interventions_block r = Inl TypeError
    \<or> recommendations_block r = Inl TypeError"
  shows "formatReportForWhatsApp f r = Inl TypeError"
  using assms by (auto simp: formatReportForWhatsApp_def split: sum.splits intro: error_eq)


lemma medication_entries_null: "None \<in> set l \<Longrightarrow> medication_entries l = Inl TypeError"
proof (induction l)
  case Nil
  then show ?case by simp
next
  case (Cons a l)
  then show ?case
    by (cases a) (auto split: sum.splits)
qed

lemma vitals_block_present:
  "vitals r = Some v \<Longrightarrow>
   vitals_block r =
     [55358, 56954] @ js '' *SINAIS VITAIS:*\<newline>''
     @ (case bp_systolic v of
          None \<Rightarrow> []
        | Some x \<Rightarrow>
            (case bp_diastolic v of
               None \<Rightarrow> []
             | Some y \<Rightarrow>
                 if truthy (Some x) \<and> truthy (Some y)
                 then [8226] @ js '' PA: '' @ show_scalar (Some x) @ js ''/'' @ show_scalar (Some y)
                      @ js '' mmHg\<newline>''
                 else []))
     @ (case hr v of
          None \<Rightarrow> []
        | Some x \<Rightarrow>
            if truthy (Some x) then [8226] @ js '' FC: '' @ show_scalar (Some x) @ js '' bpm\<newline>''
            else [])
     @ (case temp_c v of
          None \<Rightarrow> []
        | Some x \<Rightarrow>
            if truthy (Some x)
            then [8226] @ js '' Temperatura: '' @ show_scalar (Some x) @ [176] @ js ''C\<newline>''
            else [])
     @ (case spo2 v of
          None \<Rightarrow> []
        | Some x \<Rightarrow>
            if truthy (Some x) then [8226] @ js '' SpO2: '' @ show_scalar (Some x) @ js ''%\<newline>''
            else [])
     @ js ''\<newline>''"
  by (simp add: vitals_block_def truthy_def split: option.splits)



lemma list_blocks_absent:
  "medications_in_use r = None \<Longrightarrow> medications_in_use_block r = Inr []"
  "medications_administered r = None \<Longrightarrow> medications_administered_block r = Inr []"
  "materials_used r = None \<Longrightarrow> materials_used_block r = Inr []"
  "interventions r = None \<Longrightarrow> interventions_block r = Inr []"
  "recommendations r = None \<Longrightarrow> recommendations_block r = Inr []"
  by (simp_all add: medications_in_use_block_def medications_administered_block_def
      materials_used_block_def interventions_block_def recommendations_block_def
      bullet_list_None)

lemma text_blocks_absent:
  "patient_state r = None \<Longrightarrow> patient_state_block r = []"
  "vitals r = None \<Longrightarrow> vitals_block r = []"
  "observations r = None \<Longrightarrow> observations_block r = []"
  "data_processamento r = None \<Longrightarrow> data_processamento_block f r = []"
  by (simp_all add: patient_state_block_def vitals_block_def observations_block_def
      data_processamento_block_def)



lemma hr_only_fields:
  "patient_state hr_only = None" "medications_in_use hr_only = None"
  "medications_administered hr_only = None" "materials_used hr_only = None"
  "interventions hr_only = None" "recommendations hr_only = None"
  "observations hr_only = None" "data_processamento hr_only = None"
  "vitals hr_only = Some \<lparr>bp_systolic = None, bp_diastolic = None,
     hr = Some (Num (Abs_safe_int 82)), temp_c = None, spo2 = None\<rparr>"
  by (simp_all add: hr_only_def)

lemma show_82: "show_scalar (Some (Num (Abs_safe_int 82))) = js ''82''"
  by (simp add: show_scalar_def safe_82 show_int_def show_nat.simps js_def)

lemma format_hr_only:
  "formatReportForWhatsApp f hr_only =
     Inr (report_title @ [55358, 56954] @ js '' *SINAIS VITAIS:*\<newline>'' @ [8226]
          @ js '' FC: 82 bpm\<newline>\<newline>'')"
proof -
  have v: "vitals_block hr_only =
      [55358, 56954] @ js '' *SINAIS VITAIS:*\<newline>'' @ [8226] @ js '' FC: 82 bpm\<newline>\<newline>''"
    by (simp add: vitals_block_present [OF hr_only_fields(9)] truthy_def safe_82 show_82)
       (simp add: js_def)
  show ?thesis
    by (simp add: format_blocks [OF list_blocks_absent(1) [OF hr_only_fields(2)]
          list_blocks_absent(2) [OF hr_only_fields(3)] list_blocks_absent(3) [OF hr_only_fields(4)]
          list_blocks_absent(4) [OF hr_only_fields(5)] list_blocks_absent(5) [OF hr_only_fields(6)]]
        text_blocks_absent hr_only_fields v)
qed

lemma format_null_entry: "formatReportForWhatsApp f null_entry = Inl TypeError"
proof -
  have "medications_administered_block null_entry = Inl TypeError"
    by (simp add: medications_administered_block_def null_entry_def)
  then show ?thesis
    by (simp add: format_throws)
qed

lemma sample_throws:
  "\<not> formatter_throws f env0" "\<not> formatter_throws f env_refused"
  "\<not> formatter_throws f env_success" "formatter_throws f env_null_entry"
  by (simp_all add: formatter_throws_def env0_def env_refused_def env_success_def
      env_null_entry_def format_hr_only format_null_entry)

subsection \<open>The accumulator invariant\<close>










lemma run_Cons_snd:
  "snd (run k f ((e, m) # evs) w) =
     snd (handleBotConversation k f e m w) # snd (run k f evs (fst (handleBotConversation k f e m w)))"
  by (simp split: prod.splits)



subsection \<open>Handling a message in a world\<close>

lemma handle_world:
  "fst (handleBotConversation k f e m w) =
     \<lparr>userSessions = (userSessions w)
        (sender m \<mapsto> session_after (botConversation k f e m (session_of w (sender m)) (disk w))),
      disk = disk_after (botConversation k f e m (session_of w (sender m)) (disk w))\<rparr>"
  by (simp add: handleBotConversation_def getUserSession_def session_of_def Let_def
      split: option.splits)

lemma handle_outcome:
  "snd (handleBotConversation k f e m w) =
     botConversation k f e m (session_of w (sender m)) (disk w)"
  by (simp add: handleBotConversation_def getUserSession_def session_of_def Let_def
      split: option.splits)


lemma disk_handle:
  "disk (fst (handleBotConversation k f e m w)) =
     disk_after (botConversation k f e m (session_of w (sender m)) (disk w))"
  by (simp add: handle_world)




subsection \<open>The stored PIN is never read\<close>

lemma forget_pin_fields:
  "state (forget_pin s) = state s" "visitDocuments (forget_pin s) = visitDocuments s"
  "visitTexts (forget_pin s) = visitTexts s" "forget_pin (forget_pin s) = forget_pin s"
  by (simp_all add: forget_pin_def)

lemma blind_fields:
  "session_after (blind out) = forget_pin (session_after out)" "disk_after (blind out) = disk_after out"
  "replies (blind out) = replies out" "posted (blind out) = posted out"
  "raised (blind out) = raised out"
  by (simp_all add: blind_def)

lemma handleMediaMessage_forget:
  "handleMediaMessage e m (forget_pin s) d b =
     (case handleMediaMessage e m s d b of (fs, s', d') \<Rightarrow> (fs, forget_pin s', d'))"
  by (simp add: handleMediaMessage_def forget_pin_def Let_def split: download.splits option.splits)

lemma blind_silent: "blind (silent (forget_pin s) d) = blind (silent s d)"
  by (simp add: blind_def silent_def forget_pin_def)

lemma build_form_forget: "build_form k (forget_pin s) d = build_form k s d"
  by (simp add: build_form_def forget_pin_def)

lemma blind_finalize: "blind (finalize k f e (forget_pin s) d) = blind (finalize k f e s d)"
  by (auto simp: blind_def finalize_def sendDocumentsToAPI_def build_form_def Let_def
      forget_pin_def split: api_response.splits option.splits sum.splits)

lemma blind_forget: "blind (botConversation k f e m (forget_pin s) d) = blind (botConversation k f e m s d)"
proof (cases "trim (body m) = []")
  case True
  show ?thesis
  proof (cases "state s = Some DOCUMENTING_VISIT \<and> mtype m \<noteq> js ''chat''")
    case dm: True
    then have "state (forget_pin s) = Some DOCUMENTING_VISIT"
      by (simp add: forget_pin_fields)
    then show ?thesis
      using True dm
      by (simp add: conv_media media_in_visit_def handleMediaMessage_forget split: prod.splits)
         (simp add: blind_def silent_def forget_pin_def)
  next
    case False
    then have "botConversation k f e m s d = silent s d"
      "botConversation k f e m (forget_pin s) d = silent (forget_pin s) d"
      using True conv_empty_chat conv_empty_other forget_pin_fields(1) by metis+
    then show ?thesis
      by (simp add: blind_silent)
  qed
next
  case ne: False
  show ?thesis
  proof (cases "state s")
    case None
    then have "state (forget_pin s) = None"
      by (simp add: forget_pin_fields)
    then show ?thesis
      using None ne by (simp add: conv_new) (simp add: blind_def say_def forget_pin_def)
  next
    case (Some st)
    then have fs: "state (forget_pin s) = Some st"
      by (simp add: forget_pin_fields)
    show ?thesis
    proof (cases st)
      case WAITING_PIN
      then show ?thesis
        using Some fs ne by (simp add: conv_waiting) (simp add: blind_def say_def forget_pin_def)
    next
      case AUTHENTICATED
      then show ?thesis
        using Some fs ne
        by (simp add: conv_authenticated) (simp add: blind_def say_def forget_pin_def)
    next
      case DOCUMENTING_VISIT
      then show ?thesis
        using Some fs ne
        by (simp add: conv_documenting blind_finalize blind_silent forget_pin_fields)
           (simp add: blind_def forget_pin_def)
    qed
  qed
qed

lemma blind_cong:
  "forget_pin s1 = forget_pin s2 \<Longrightarrow>
   blind (botConversation k f e m s1 d) = blind (botConversation k f e m s2 d)"
  by (metis blind_forget)

lemma blind_accept:
  assumes "isValidPin (trim b1)" "isValidPin (trim b2)"
    and "state s = Some WAITING_PIN \<or> state s = Some AUTHENTICATED"
  shows "blind (botConversation k f e (m\<lparr>body := b1\<rparr>) s d)
       = blind (botConversation k f e (m\<lparr>body := b2\<rparr>) s d)"
proof -
  have n1: "trim (body (m\<lparr>body := b1\<rparr>)) \<noteq> []" "trim (body (m\<lparr>body := b1\<rparr>)) \<noteq> js ''1''"
    "trim (body (m\<lparr>body := b1\<rparr>)) \<noteq> js ''2''" "isValidPin (trim (body (m\<lparr>body := b1\<rparr>)))"
    using isValidPin_not_menu [OF assms(1)] assms(1) by simp_all
  have n2: "trim (body (m\<lparr>body := b2\<rparr>)) \<noteq> []" "trim (body (m\<lparr>body := b2\<rparr>)) \<noteq> js ''1''"
    "trim (body (m\<lparr>body := b2\<rparr>)) \<noteq> js ''2''" "isValidPin (trim (body (m\<lparr>body := b2\<rparr>)))"
    using isValidPin_not_menu [OF assms(2)] assms(2) by simp_all
  from assms(3) show ?thesis
  proof
    assume st: "state s = Some WAITING_PIN"
    show ?thesis
      using n1(4) n2(4)
      by (simp add: conv_waiting [OF n1(1) st] conv_waiting [OF n2(1) st])
         (simp add: blind_def say_def forget_pin_def)
  next
    assume st: "state s = Some AUTHENTICATED"
    show ?thesis
      using n1 n2
      by (simp add: conv_authenticated [OF n1(1) st] conv_authenticated [OF n2(1) st])
         (simp add: blind_def say_def forget_pin_def)
  qed
qed

lemma blind_world_session:
  assumes "blind_world w1 = blind_world w2"
  shows "forget_pin (session_of w1 u) = forget_pin (session_of w2 u)"
proof -
  have "map_option forget_pin (userSessions w1 u) = map_option forget_pin (userSessions w2 u)"
    using assms by (simp add: blind_world_def fun_eq_iff)
  then show ?thesis
    by (cases "userSessions w1 u"; cases "userSessions w2 u") (simp_all add: session_of_def)
qed

lemma blind_world_disk: "blind_world w1 = blind_world w2 \<Longrightarrow> disk w1 = disk w2"
  by (simp add: blind_world_def)

lemma blind_world_step:
  assumes w: "blind_world w1 = blind_world w2"
    and o: "blind (botConversation k f e1 m1 (session_of w1 (sender m1)) (disk w1))
          = blind (botConversation k f e2 m2 (session_of w2 (sender m2)) (disk w2))"
    and s: "sender m1 = sender m2"
  shows "blind_world (fst (handleBotConversation k f e1 m1 w1))
       = blind_world (fst (handleBotConversation k f e2 m2 w2))"
proof -
  have r: "map_option forget_pin (userSessions w1 u) = map_option forget_pin (userSessions w2 u)" for u
    using w by (simp add: blind_world_def fun_eq_iff)
  from o have "session_after (blind (botConversation k f e1 m1 (session_of w1 (sender m1)) (disk w1)))
      = session_after (blind (botConversation k f e2 m2 (session_of w2 (sender m2)) (disk w2)))"
    and "disk_after (blind (botConversation k f e1 m1 (session_of w1 (sender m1)) (disk w1)))
      = disk_after (blind (botConversation k f e2 m2 (session_of w2 (sender m2)) (disk w2)))"
    by simp_all
  then show ?thesis
    using r s by (simp add: handle_world blind_world_def fun_eq_iff blind_fields)
qed

lemma blind_run:
  "blind_world w1 = blind_world w2 \<Longrightarrow>
   map blind (snd (run k f evs w1)) = map blind (snd (run k f evs w2))"
proof (induction evs arbitrary: w1 w2)
  case Nil
  then show ?case by simp
next
  case (Cons a evs)
  obtain e m where a: "a = (e, m)"
    by (cases a) auto
  have o: "blind (botConversation k f e m (session_of w1 (sender m)) (disk w1))
      = blind (botConversation k f e m (session_of w2 (sender m)) (disk w2))"
    using blind_cong [OF blind_world_session [OF Cons.prems]] blind_world_disk [OF Cons.prems]
    by simp
  have "blind_world (fst (handleBotConversation k f e m w1))
      = blind_world (fst (handleBotConversation k f e m w2))"
    using Cons.prems o by (rule blind_world_step) simp
  then have "map blind (snd (run k f evs (fst (handleBotConversation k f e m w1))))
      = map blind (snd (run k f evs (fst (handleBotConversation k f e m w2))))"
    by (rule Cons.IH)
  then show ?case
    using o by (simp only: a run_Cons_snd handle_outcome list.map)
qed

lemma observable_blind: "observable (blind out) = observable out"
  by (simp add: observable_def blind_fields)

lemma observable_map_blind: "map observable (map blind outs) = map observable outs"
  by (simp add: observable_blind)

lemma posted_form:
  assumes "posted (botConversation k f e m s d) = Some form"
  shows "form = build_form k s d"
proof -
  have p: "posted (botConversation k f e m s d) \<noteq> None"
    using assms by simp
  then have st: "state s = Some DOCUMENTING_VISIT"
    and kw: "toLowerCase (trim (body m)) = js ''0'' \<or> toLowerCase (trim (body m)) = js ''sair''"
    unfolding posted_iff by simp_all
  from kw have ne: "trim (body m) \<noteq> []"
    by (auto simp: toLowerCase_Nil js_def)
  have "botConversation k f e m s d = finalize k f e s d"
    using kw by (simp add: conv_documenting [OF ne st])
  then show ?thesis
    using assms by (simp add: finalize_fields)
qed

lemma run_api_key:
  "out \<in> set (snd (run k f evs w)) \<Longrightarrow> posted out = Some form \<Longrightarrow> api_key form = k"
proof (induction evs arbitrary: w)
  case Nil
  then show ?case by simp
next
  case (Cons a evs)
  obtain e m where a: "a = (e, m)"
    by (cases a) auto
  from Cons.prems(1) have "out = botConversation k f e m (session_of w (sender m)) (disk w)
      \<or> out \<in> set (snd (run k f evs (fst (handleBotConversation k f e m w))))"
    by (simp only: a run_Cons_snd handle_outcome set_ConsD set_simps insert_iff)
  then show ?case
  proof
    assume "out = botConversation k f e m (session_of w (sender m)) (disk w)"
    with Cons.prems(2) have "form = build_form k (session_of w (sender m)) (disk w)"
      using posted_form by blast
    then show ?thesis
      by (simp add: build_form_def)
  next
    assume "out \<in> set (snd (run k f evs (fst (handleBotConversation k f e m w))))"
    then show ?thesis
      using Cons.IH Cons.prems(2) by blast
  qed
qed

section \<open>Claims\<close>

subsection \<open>C1: a PIN sent again\<close>

text \<open>
  C1, as amended. For every session in state \<open>AUTHENTICATED\<close>, an inbound event whose
  trimmed body is a valid 6-digit PIN is a re-authentication: the PIN is stored, both
  accumulators are cleared, the menu is the one reply, and the state is
  \<open>AUTHENTICATED\<close>. In state \<open>DOCUMENTING_VISIT\<close> (the specification's COLLECTING) the
  same text is no re-authentication: the state and the stored PIN stay, a text message
  is recorded as a note and acknowledged as one, and any other event is dropped.
\<close>

theorem reauthentication:
  "isValidPin (trim (body m)) \<Longrightarrow>
   (state s = Some AUTHENTICATED \<longrightarrow>
      session_after (botConversation k f e m s d) =
        s\<lparr>pin := Some (trim (body m)), state := Some AUTHENTICATED,
          visitDocuments := [], visitTexts := []\<rparr> \<and>
      replies (botConversation k f e m s d) = [menuMessage]) \<and>
   (state s = Some DOCUMENTING_VISIT \<longrightarrow>
      session_after (botConversation k f e m s d) =
        (if mtype m = js ''chat'' \<and> write_ok e
         then s\<lparr>visitTexts := visitTexts s @ [trim (body m)]\<rparr> else s) \<and>
      replies (botConversation k f e m s d) =
        (if mtype m = js ''chat'' \<and> write_ok e then [textReceivedMessage] else []))"
proof (intro conjI impI)
  assume v: "isValidPin (trim (body m))"
  then have ne: "trim (body m) \<noteq> []" and n1: "trim (body m) \<noteq> js ''1''"
    and n2: "trim (body m) \<noteq> js ''2''"
    using isValidPin_not_menu by blast+
  have nk: "\<not> (toLowerCase (trim (body m)) = js ''0'' \<or> toLowerCase (trim (body m)) = js ''sair'')"
    using isValidPin_not_keyword [OF v] by simp
  {
    assume st: "state s = Some AUTHENTICATED"
    have eq: "botConversation k f e m s d =
        say e (s\<lparr>pin := Some (trim (body m)), state := Some AUTHENTICATED,
                  visitDocuments := [], visitTexts := []\<rparr>) d menuMessage"
      using v n1 n2 by (simp add: conv_authenticated [OF ne st])
    show "session_after (botConversation k f e m s d) =
        s\<lparr>pin := Some (trim (body m)), state := Some AUTHENTICATED,
          visitDocuments := [], visitTexts := []\<rparr>"
      by (simp add: eq say_def)
    show "replies (botConversation k f e m s d) = [menuMessage]"
      by (simp add: eq say_def)
  }
  {
    assume st: "state s = Some DOCUMENTING_VISIT"
    show "session_after (botConversation k f e m s d) =
        (if mtype m = js ''chat'' \<and> write_ok e
         then s\<lparr>visitTexts := visitTexts s @ [trim (body m)]\<rparr> else s)"
      using nk by (simp add: conv_documenting [OF ne st] silent_def)
    show "replies (botConversation k f e m s d) =
        (if mtype m = js ''chat'' \<and> write_ok e then [textReceivedMessage] else [])"
      using nk by (simp add: conv_documenting [OF ne st] silent_def)
  }
qed

text \<open>
  C1, witness: \<open>654321\<close> sent to an authenticated session gives the menu and an
  authenticated session with the new PIN and nothing collected; sent during a visit, it
  is acknowledged as a note.
\<close>

theorem reauthentication_witness:
  "isValidPin (trim (body (chat (js ''654321'')))) \<and>
   state (session_in (Some AUTHENTICATED)) = Some AUTHENTICATED \<and>
   session_after (botConversation (js ''key'') id env0 (chat (js ''654321''))
     (session_in (Some AUTHENTICATED)) Map.empty)
     = \<lparr>state = Some AUTHENTICATED, pin = Some (js ''654321''), visitDocuments = [],
        visitTexts = []\<rparr> \<and>
   replies (botConversation (js ''key'') id env0 (chat (js ''654321''))
     (session_in (Some AUTHENTICATED)) Map.empty) = [menuMessage] \<and>
   state collecting = Some DOCUMENTING_VISIT \<and>
   replies (botConversation (js ''key'') id env0 (chat (js ''654321'')) collecting Map.empty)
     = [textReceivedMessage]"
proof -
  have v: "isValidPin (trim (body (chat (js ''654321''))))"
    by (simp add: eval_simps)
  have t: "trim (body (chat (js ''654321''))) = js ''654321''"
    by (simp add: eval_simps)
  have st: "state (session_in (Some AUTHENTICATED)) = Some AUTHENTICATED"
    "state collecting = Some DOCUMENTING_VISIT"
    by (simp_all add: session_in_def collecting_def)
  have c: "mtype (chat (js ''654321'')) = js ''chat''" "write_ok env0"
    by (simp_all add: chat_def env0_def)
  have s: "session_in (Some AUTHENTICATED)
      \<lparr>pin := Some (js ''654321''), state := Some AUTHENTICATED, visitDocuments := [], visitTexts := []\<rparr>
      = \<lparr>state = Some AUTHENTICATED, pin = Some (js ''654321''), visitDocuments = [], visitTexts = []\<rparr>"
    by (simp add: session_in_def)
  show ?thesis
    using v st c s
      reauthentication [OF v, of "session_in (Some AUTHENTICATED)" "js ''key''" id env0 Map.empty]
      reauthentication [OF v, of collecting "js ''key''" id env0 Map.empty]
    by (simp add: t)
qed

text \<open>
  C1, counterexample to the claim as first stated (a valid PIN during COLLECTING clears
  the accumulators, sends the menu and ends in AUTHENTICATED): during a visit the text
  \<open>654321\<close> leaves the state \<open>DOCUMENTING_VISIT\<close>, joins the notes, and the reply is
  not the menu.
\<close>

theorem reauthentication_counterexample:
  "isValidPin (js ''654321'') \<and>
   state (session_after
     (botConversation (js ''key'') id env0 (chat (js ''654321'')) collecting Map.empty))
     = Some DOCUMENTING_VISIT \<and>
   visitTexts (session_after
     (botConversation (js ''key'') id env0 (chat (js ''654321'')) collecting Map.empty))
     = [js ''curativo trocado'', js ''654321''] \<and>
   replies (botConversation (js ''key'') id env0 (chat (js ''654321'')) collecting Map.empty)
     \<noteq> [menuMessage]"
proof -
  have v: "isValidPin (js ''654321'')"
    by (simp add: eval_simps)
  have t: "trim (body (chat (js ''654321''))) = js ''654321''"
    by (simp add: eval_simps)
  have ne: "trim (body (chat (js ''654321''))) \<noteq> []"
    unfolding t by (simp add: js_def)
  have st: "state collecting = Some DOCUMENTING_VISIT"
    by (simp add: collecting_def)
  have nk: "toLowerCase (js ''654321'') \<noteq> js ''0''" "toLowerCase (js ''654321'') \<noteq> js ''sair''"
    using isValidPin_not_keyword [OF v] by simp_all
  have c: "mtype (chat (js ''654321'')) = js ''chat''" "write_ok env0"
    by (simp_all add: chat_def env0_def)
  have neq: "textReceivedMessage \<noteq> menuMessage"
    by (simp add: textReceivedMessage_def menuMessage_def js_def)
  have 1: "state (session_after
     (botConversation (js ''key'') id env0 (chat (js ''654321'')) collecting Map.empty))
     = Some DOCUMENTING_VISIT"
    using nk c by (simp add: conv_documenting [OF ne st] t st)
  have 2: "visitTexts (session_after
     (botConversation (js ''key'') id env0 (chat (js ''654321'')) collecting Map.empty))
     = [js ''curativo trocado'', js ''654321'']"
    using nk c by (simp add: conv_documenting [OF ne st] t) (simp add: collecting_def)
  have 3: "replies (botConversation (js ''key'') id env0 (chat (js ''654321'')) collecting Map.empty)
     \<noteq> [menuMessage]"
    using nk c neq by (simp add: conv_documenting [OF ne st] t)
  from v 1 2 3 show ?thesis by blast
qed

subsection \<open>C2: the session after finalize\<close>

text \<open>
  C2, as amended. For every session in state \<open>DOCUMENTING_VISIT\<close>, processing the
  finalize keyword leaves the session with both accumulators empty and the state reset
  to \<open>null\<close> (the state of a new session, before the PIN prompt), and the handler does
  not throw, whether the request throws (timeout, connection error), the service
  answers with its failure flag, it answers a success without data, or it answers a
  success whose result the formatter renders; and whatever happens to the replies.
\<close>

theorem finalize_resets:
  assumes "state s = Some DOCUMENTING_VISIT"
    and "toLowerCase (trim (body m)) = js ''0'' \<or> toLowerCase (trim (body m)) = js ''sair''"
    and "api_reply e = RequestThrows msg
      \<or> api_reply e = Responded False dados erro
      \<or> api_reply e = Responded True None erro
      \<or> (api_reply e = Responded True (Some reportData) erro
          \<and> formatReportForWhatsApp f reportData = Inr formattedReport)"
  shows "session_after (botConversation k f e m s d) =
       s\<lparr>state := None, visitDocuments := [], visitTexts := []\<rparr> \<and>
     raised (botConversation k f e m s d) = False"
proof -
  from assms(2) have ne: "trim (body m) \<noteq> []"
    by (auto simp: toLowerCase_Nil js_def)
  have eq: "botConversation k f e m s d = finalize k f e s d"
    using assms(2) by (simp add: conv_documenting [OF ne assms(1)])
  have "\<not> formatter_throws f e"
    using assms(3) by (auto simp: formatter_throws_def split: option.splits)
  then show ?thesis
    by (simp add: eq finalize_rendered)
qed

text \<open>
  C2, witness: the keyword \<open>0\<close> during a visit, with the service answering a result,
  answering a failure, and timing out: the same reset session each time.
\<close>

theorem finalize_resets_witness:
  "state collecting = Some DOCUMENTING_VISIT \<and>
   toLowerCase (trim (body (chat (js ''0'')))) = js ''0'' \<and>
   api_reply env_success = Responded True (Some hr_only) None \<and>
   formatReportForWhatsApp id hr_only =
     Inr (report_title @ [55358, 56954] @ js '' *SINAIS VITAIS:*\<newline>'' @ [8226]
          @ js '' FC: 82 bpm\<newline>\<newline>'') \<and>
   api_reply env_refused = Responded False None (Some (js ''timeout of 60000ms exceeded'')) \<and>
   api_reply env0 = RequestThrows (js ''timeout of 60000ms exceeded'') \<and>
   session_after (botConversation (js ''key'') id env_success (chat (js ''0'')) collecting Map.empty)
     = \<lparr>state = None, pin = Some (js ''123456''), visitDocuments = [], visitTexts = []\<rparr> \<and>
   session_after (botConversation (js ''key'') id env_refused (chat (js ''0'')) collecting Map.empty)
     = \<lparr>state = None, pin = Some (js ''123456''), visitDocuments = [], visitTexts = []\<rparr> \<and>
   session_after (botConversation (js ''key'') id env0 (chat (js ''0'')) collecting Map.empty)
     = \<lparr>state = None, pin = Some (js ''123456''), visitDocuments = [], visitTexts = []\<rparr>"
proof -
  have st: "state collecting = Some DOCUMENTING_VISIT"
    by (simp add: collecting_def)
  have kw: "toLowerCase (trim (body (chat (js ''0'')))) = js ''0''"
    by (simp add: trim_zero lower_eq_zero)
  then have kw': "toLowerCase (trim (body (chat (js ''0'')))) = js ''0'' \<or>
      toLowerCase (trim (body (chat (js ''0'')))) = js ''sair''"
    by simp
  have a: "api_reply env_success = Responded True (Some hr_only) None"
    "api_reply env_refused = Responded False None (Some (js ''timeout of 60000ms exceeded''))"
    "api_reply env0 = RequestThrows (js ''timeout of 60000ms exceeded'')"
    by (simp_all add: env_success_def env_refused_def env0_def)
  have r: "formatReportForWhatsApp id hr_only =
     Inr (report_title @ [55358, 56954] @ js '' *SINAIS VITAIS:*\<newline>'' @ [8226]
          @ js '' FC: 82 bpm\<newline>\<newline>'')"
    by (rule format_hr_only)
  have c: "collecting\<lparr>state := None, visitDocuments := [], visitTexts := []\<rparr>
      = \<lparr>state = None, pin = Some (js ''123456''), visitDocuments = [], visitTexts = []\<rparr>"
    by (simp add: collecting_def)
  have 1: "api_reply env_success = RequestThrows []
      \<or> api_reply env_success = Responded False None None
      \<or> api_reply env_success = Responded True None None
      \<or> (api_reply env_success = Responded True (Some hr_only) None
          \<and> formatReportForWhatsApp id hr_only =
              Inr (report_title @ [55358, 56954] @ js '' *SINAIS VITAIS:*\<newline>'' @ [8226]
                   @ js '' FC: 82 bpm\<newline>\<newline>''))"
    using a(1) r by simp
  have 2: "api_reply env_refused = RequestThrows []
      \<or> api_reply env_refused = Responded False None (Some (js ''timeout of 60000ms exceeded''))
      \<or> api_reply env_refused = Responded True None (Some (js ''timeout of 60000ms exceeded''))
      \<or> (api_reply env_refused = Responded True (Some hr_only) (Some (js ''timeout of 60000ms exceeded''))
          \<and> formatReportForWhatsApp id hr_only = Inr [])"
    using a(2) by simp
  have 3: "api_reply env0 = RequestThrows (js ''timeout of 60000ms exceeded'')
      \<or> api_reply env0 = Responded False None None
      \<or> api_reply env0 = Responded True None None
      \<or> (api_reply env0 = Responded True (Some hr_only) None
          \<and> formatReportForWhatsApp id hr_only = Inr [])"
    using a(3) by simp
  show ?thesis
    using st kw a r c
      finalize_resets [OF st kw' 1, of "js ''key''" Map.empty]
      finalize_resets [OF st kw' 2, of "js ''key''" Map.empty]
      finalize_resets [OF st kw' 3, of "js ''key''" Map.empty]
    by simp
qed

text \<open>
  C2, counterexample to the claim as first stated (the session ends in AUTHENTICATED
  with empty accumulators whatever the outcome): after a successful hand-off the state
  is \<open>null\<close>, not \<open>AUTHENTICATED\<close>; and after a success whose result holds a \<^verbatim>\<open>null\<close>
  medication the handler has thrown, and the session is still in the visit with what
  it had collected.
\<close>

theorem finalize_state_counterexample:
  "state (session_after
     (botConversation (js ''key'') id env_success (chat (js ''0'')) collecting Map.empty)) = None \<and>
   state (session_after
     (botConversation (js ''key'') id env_success (chat (js ''0'')) collecting Map.empty))
     \<noteq> Some AUTHENTICATED \<and>
   api_reply env_null_entry = Responded True (Some null_entry) None \<and>
   botConversation (js ''key'') id env_null_entry (chat (js ''0'')) collecting Map.empty
     = \<lparr>session_after = collecting, disk_after = Map.empty, replies = [processingMessage],
        posted = Some (build_form (js ''key'') collecting Map.empty), raised = True\<rparr> \<and>
   state collecting = Some DOCUMENTING_VISIT \<and> visitTexts collecting \<noteq> []"
proof -
  have st: "state collecting = Some DOCUMENTING_VISIT" and vt: "visitTexts collecting \<noteq> []"
    by (simp_all add: collecting_def)
  have ne: "trim (body (chat (js ''0''))) \<noteq> []"
    unfolding trim_zero by (simp add: js_def)
  have "toLowerCase (trim (body (chat (js ''0'')))) = js ''0''"
    by (simp add: trim_zero lower_eq_zero)
  then have eq: "botConversation (js ''key'') id e (chat (js ''0'')) collecting Map.empty
      = finalize (js ''key'') id e collecting Map.empty" for e
    by (simp add: conv_documenting [OF ne st])
  have 1: "state (session_after (finalize (js ''key'') id env_success collecting Map.empty)) = None"
    by (simp add: finalize_rendered sample_throws)
  have 2: "api_reply env_null_entry = Responded True (Some null_entry) None"
    by (simp add: env_null_entry_def)
  have 3: "finalize (js ''key'') id env_null_entry collecting Map.empty
     = \<lparr>session_after = collecting, disk_after = Map.empty, replies = [processingMessage],
        posted = Some (build_form (js ''key'') collecting Map.empty), raised = True\<rparr>"
    by (simp add: finalize_thrown sample_throws)
  from st vt 1 2 3 show ?thesis
    by (simp add: eq)
qed

subsection \<open>C3: the finalize keyword\<close>

text \<open>
  C3, as amended. For every session in state \<open>DOCUMENTING_VISIT\<close>, an event posts the
  hand-off form if and only if its body, with surrounding whitespace trimmed, matches
  \<open>0\<close> or \<open>sair\<close> without regard to case; \<open>exit\<close> is not a keyword. When it matches, the
  form holds what the session had collected, and the keyword is captured neither as a
  note nor as a file: each accumulator is empty afterwards, or as it was, and the disk
  is unchanged.
\<close>

theorem finalize_keyword:
  "state s = Some DOCUMENTING_VISIT \<Longrightarrow>
   (posted (botConversation k f e m s d) \<noteq> None \<longleftrightarrow>
      same_ignoring_case ''0'' (trim (body m)) \<or> same_ignoring_case ''sair'' (trim (body m))) \<and>
   (same_ignoring_case ''0'' (trim (body m)) \<or> same_ignoring_case ''sair'' (trim (body m)) \<longrightarrow>
      posted (botConversation k f e m s d) = Some (build_form k s d) \<and>
      (visitTexts (session_after (botConversation k f e m s d)) = [] \<or>
       visitTexts (session_after (botConversation k f e m s d)) = visitTexts s) \<and>
      (visitDocuments (session_after (botConversation k f e m s d)) = [] \<or>
       visitDocuments (session_after (botConversation k f e m s d)) = visitDocuments s) \<and>
      disk_after (botConversation k f e m s d) = d)"
proof (intro conjI impI)
  assume st: "state s = Some DOCUMENTING_VISIT"
  show "posted (botConversation k f e m s d) \<noteq> None \<longleftrightarrow>
      same_ignoring_case ''0'' (trim (body m)) \<or> same_ignoring_case ''sair'' (trim (body m))"
    using st by (simp only: posted_iff lower_eq_zero lower_eq_sair same_ignoring_case_zero) simp
  assume kw: "same_ignoring_case ''0'' (trim (body m)) \<or> same_ignoring_case ''sair'' (trim (body m))"
  then have low: "toLowerCase (trim (body m)) = js ''0'' \<or> toLowerCase (trim (body m)) = js ''sair''"
    by (simp only: lower_eq_zero lower_eq_sair same_ignoring_case_zero)
  then have ne: "trim (body m) \<noteq> []"
    by (auto simp: toLowerCase_Nil js_def)
  have eq: "botConversation k f e m s d = finalize k f e s d"
    using low by (simp add: conv_documenting [OF ne st])
  show "posted (botConversation k f e m s d) = Some (build_form k s d)"
    and "visitTexts (session_after (botConversation k f e m s d)) = [] \<or>
       visitTexts (session_after (botConversation k f e m s d)) = visitTexts s"
    and "visitDocuments (session_after (botConversation k f e m s d)) = [] \<or>
       visitDocuments (session_after (botConversation k f e m s d)) = visitDocuments s"
    and "disk_after (botConversation k f e m s d) = d"
    by (simp_all add: eq finalize_fields finalize_session)
qed

text \<open>
  C3, witness: during a visit \<open>Sair\<close> posts the form and leaves no note; the capital
  letter \<open>O\<close> is not the keyword and posts nothing.
\<close>

theorem finalize_keyword_witness:
  "state collecting = Some DOCUMENTING_VISIT \<and>
   same_ignoring_case ''sair'' (trim (body (chat (js ''Sair'')))) \<and>
   posted (botConversation (js ''key'') id env0 (chat (js ''Sair'')) collecting Map.empty) \<noteq> None \<and>
   visitTexts (session_after
     (botConversation (js ''key'') id env0 (chat (js ''Sair'')) collecting Map.empty)) = [] \<and>
   \<not> same_ignoring_case ''0'' (trim (body (chat (js ''O'')))) \<and>
   \<not> same_ignoring_case ''sair'' (trim (body (chat (js ''O'')))) \<and>
   posted (botConversation (js ''key'') id env0 (chat (js ''O'')) collecting Map.empty) = None"
proof -
  have st: "state collecting = Some DOCUMENTING_VISIT"
    by (simp add: collecting_def)
  have a: "same_ignoring_case ''sair'' (trim (body (chat (js ''Sair''))))"
    by (simp add: same_ignoring_case_def eval_simps)
  have b: "\<not> same_ignoring_case ''0'' (trim (body (chat (js ''O''))))"
    "\<not> same_ignoring_case ''sair'' (trim (body (chat (js ''O''))))"
    by (simp_all add: same_ignoring_case_def eval_simps)
  have t: "trim (body (chat (js ''Sair''))) = js ''Sair''"
    by (simp add: eval_simps)
  have ne: "trim (body (chat (js ''Sair''))) \<noteq> []"
    unfolding t by (simp add: js_def)
  have "toLowerCase (trim (body (chat (js ''Sair'')))) = js ''sair''"
    using a by (simp only: lower_eq_sair)
  then have "botConversation (js ''key'') id env0 (chat (js ''Sair'')) collecting Map.empty
      = finalize (js ''key'') id env0 collecting Map.empty"
    by (simp add: conv_documenting [OF ne st])
  then have c: "visitTexts (session_after
     (botConversation (js ''key'') id env0 (chat (js ''Sair'')) collecting Map.empty)) = []"
    by (simp add: finalize_rendered sample_throws)
  show ?thesis
    using st a b c
      finalize_keyword [OF st, of "js ''key''" id env0 "chat (js ''Sair'')" Map.empty]
      finalize_keyword [OF st, of "js ''key''" id env0 "chat (js ''O'')" Map.empty]
    by simp
qed

text \<open>
  C3, counterexample to the claim as first stated (\<open>exit\<close> triggers the hand-off and is
  never captured; no text other than the keywords triggers it): \<open>exit\<close> posts nothing and
  is recorded as a note; and the body \<open>" 0 "\<close>, which is not \<open>0\<close>, posts the form.
\<close>

theorem finalize_keyword_counterexample:
  "posted (botConversation (js ''key'') id env0 (chat (js ''exit'')) collecting Map.empty) = None \<and>
   visitTexts (session_after
     (botConversation (js ''key'') id env0 (chat (js ''exit'')) collecting Map.empty))
     = [js ''curativo trocado'', js ''exit''] \<and>
   body (chat (js '' 0 '')) \<noteq> js ''0'' \<and>
   posted (botConversation (js ''key'') id env0 (chat (js '' 0 '')) collecting Map.empty) \<noteq> None"
proof -
  have st: "state collecting = Some DOCUMENTING_VISIT"
    by (simp add: collecting_def)
  have t1: "trim (body (chat (js ''exit''))) = js ''exit''"
    and t2: "trim (body (chat (js '' 0 ''))) = js ''0''"
    by (simp_all add: eval_simps)
  have ne1: "trim (body (chat (js ''exit''))) \<noteq> []"
    and ne2: "trim (body (chat (js '' 0 ''))) \<noteq> []"
    unfolding t1 t2 by (simp_all add: js_def)
  have l1: "toLowerCase (js ''exit'') \<noteq> js ''0''" "toLowerCase (js ''exit'') \<noteq> js ''sair''"
    by (simp_all add: toLowerCase_def lower_unit_def js_def)
  have l2: "toLowerCase (js ''0'') = js ''0''"
    by (simp add: lower_eq_zero)
  have ty: "mtype (chat (js ''exit'')) = js ''chat''" "write_ok env0"
    by (simp_all add: chat_def env0_def)
  have 1: "posted (botConversation (js ''key'') id env0 (chat (js ''exit'')) collecting Map.empty) = None"
    using l1 ty by (simp add: conv_documenting [OF ne1 st] t1)
  have 2: "visitTexts (session_after
     (botConversation (js ''key'') id env0 (chat (js ''exit'')) collecting Map.empty))
     = [js ''curativo trocado'', js ''exit'']"
    using l1 ty by (simp add: conv_documenting [OF ne1 st] t1) (simp add: collecting_def)
  have 3: "body (chat (js '' 0 '')) \<noteq> js ''0''"
    by (simp add: chat_def js_def)
  have 4: "posted (botConversation (js ''key'') id env0 (chat (js '' 0 '')) collecting Map.empty) \<noteq> None"
    using l2 by (simp add: conv_documenting [OF ne2 st] t2 finalize_fields)
  from 1 2 3 4 show ?thesis by blast
qed

subsection \<open>C4: media during a visit\<close>

text \<open>
  C4, the code at the failing input. During a visit, an image that carries the caption
  \<open>foto da ferida\<close> and downloads without error leaves no trace: the session and the
  disk are unchanged and no acknowledgment is sent. The same image without the caption
  is written under \<open>visit_documents\<close>, its file name is appended to \<open>visitDocuments\<close> and
  the "received" acknowledgment is sent.
\<close>

theorem captioned_media_dropped:
  "botConversation (js ''key'') id env_image image_with_caption collecting Map.empty
     = silent collecting Map.empty \<and>
   botConversation (js ''key'') id env_image (image_with_caption\<lparr>body := []\<rparr>) collecting Map.empty
     = \<lparr>session_after = collecting\<lparr>visitDocuments :=
          [js ''image_1700000000000_3EB0A0.jpeg'', js ''image_1700000000000_3EB0A2.jpeg'']\<rparr>,
        disk_after = [path_join visitDocumentsDir (js ''image_1700000000000_3EB0A2.jpeg'')
                       \<mapsto> js ''/9j/4AAQSkZJRg==''],
        replies = [documentReceivedMessage], posted = None, raised = False\<rparr>"
proof -
  have st: "state collecting = Some DOCUMENTING_VISIT"
    by (simp add: collecting_def)
  have t: "trim (body image_with_caption) = js ''foto da ferida''"
    by (simp add: image_with_caption_def js_def trim_def is_js_space_def)
  have ne: "trim (body image_with_caption) \<noteq> []"
    unfolding t by (simp add: js_def)
  have nk: "toLowerCase (js ''foto da ferida'') \<noteq> js ''0''"
    "toLowerCase (js ''foto da ferida'') \<noteq> js ''sair''"
    by (simp_all add: toLowerCase_def lower_unit_def js_def)
  have ty: "mtype image_with_caption \<noteq> js ''chat''"
    by (simp add: image_with_caption_def js_def)
  have 1: "botConversation (js ''key'') id env_image image_with_caption collecting Map.empty
     = silent collecting Map.empty"
    using nk ty by (simp add: conv_documenting [OF ne st] t)
  have e: "trim (body (image_with_caption\<lparr>body := []\<rparr>)) = []"
    by simp
  have ty': "mtype (image_with_caption\<lparr>body := []\<rparr>) \<noteq> js ''chat''"
    by (simp add: image_with_caption_def js_def)
  have h: "handleMediaMessage env_image (image_with_caption\<lparr>body := []\<rparr>) collecting Map.empty True
     = ([js ''image_1700000000000_3EB0A2.jpeg''],
        collecting\<lparr>visitDocuments :=
          [js ''image_1700000000000_3EB0A0.jpeg'', js ''image_1700000000000_3EB0A2.jpeg'']\<rparr>,
        [path_join visitDocumentsDir (js ''image_1700000000000_3EB0A2.jpeg'')
           \<mapsto> js ''/9j/4AAQSkZJRg==''])"
  proof -
    have a: "mtype (image_with_caption\<lparr>body := []\<rparr>) \<noteq> js ''ptt''"
      "mtype (image_with_caption\<lparr>body := []\<rparr>) \<noteq> js ''audio''"
      "hasMedia (image_with_caption\<lparr>body := []\<rparr>)"
      by (simp_all add: image_with_caption_def js_def)
    have b: "downloaded env_image = Media (Some (js ''image/jpeg'')) (js ''/9j/4AAQSkZJRg=='')"
      "write_ok env_image" "now1 env_image = now1 env_image"
      by (simp_all add: env_image_def env0_def)
    have c: "js ''image/jpeg'' \<noteq> []"
      by (simp add: js_def)
    have n: "mtype (image_with_caption\<lparr>body := []\<rparr>) = mtype image_with_caption"
      "msg_id (image_with_caption\<lparr>body := []\<rparr>) = msg_id image_with_caption"
      by simp_all
    have v: "visitDocuments collecting = [js ''image_1700000000000_3EB0A0.jpeg'']"
      by (simp add: collecting_def)
    show ?thesis
      unfolding handleMediaMessage_def
      using a b(1,2) c by (simp add: Let_def n image_name v)
  qed
  have 2: "botConversation (js ''key'') id env_image (image_with_caption\<lparr>body := []\<rparr>) collecting Map.empty
     = \<lparr>session_after = collecting\<lparr>visitDocuments :=
          [js ''image_1700000000000_3EB0A0.jpeg'', js ''image_1700000000000_3EB0A2.jpeg'']\<rparr>,
        disk_after = [path_join visitDocumentsDir (js ''image_1700000000000_3EB0A2.jpeg'')
                       \<mapsto> js ''/9j/4AAQSkZJRg==''],
        replies = [documentReceivedMessage], posted = None, raised = False\<rparr>"
    by (simp add: conv_media [OF e ty' st] media_in_visit_def h)
  from 1 2 show ?thesis by blast
qed

subsection \<open>C5: the accumulators outside a visit\<close>




subsection \<open>C6: transport failure and application failure\<close>

text \<open>
  C6, as amended. A transport-level failure and an application-level failure return
  the same shape, \<open>{success: false, error: text}\<close>, with no tag telling them apart: the
  text is the exception's message in the first case and the collaborator's \<open>erro\<close> field
  in the second. The failure message sent to the user is one template around that
  text, so the two reports differ exactly when the two texts differ.
\<close>

theorem failure_reports:
  "snd (sendDocumentsToAPI k (e\<lparr>api_reply := RequestThrows msg\<rparr>) s d)
     = \<lparr>success = False, data = None, error = Some msg\<rparr> \<and>
   snd (sendDocumentsToAPI k (e\<lparr>api_reply := Responded False dados erro\<rparr>) s d)
     = \<lparr>success = False, data = None, error = erro\<rparr> \<and>
   replies (finalize k f (e\<lparr>api_reply := RequestThrows msg\<rparr>) s d)
     = [processingMessage, errorMessage (Some msg)] \<and>
   replies (finalize k f (e\<lparr>api_reply := Responded False dados erro\<rparr>) s d)
     = [processingMessage, errorMessage erro] \<and>
   (errorMessage (Some msg) = errorMessage erro \<longleftrightarrow> msg = template_opt erro)"
  by (simp add: sendDocumentsToAPI_def finalize_def errorMessage_eq template_opt_def)

text \<open>
  C6, counterexample to the claim as first stated (the error returned and the message
  surfaced for a transport failure are distinct from those of an application failure):
  a timeout, and a reply with the failure flag and the timeout's text, return the same
  result and send the same replies.
\<close>

theorem failure_reports_counterexample:
  "api_reply env0 = RequestThrows (js ''timeout of 60000ms exceeded'') \<and>
   api_reply env_refused = Responded False None (Some (js ''timeout of 60000ms exceeded'')) \<and>
   snd (sendDocumentsToAPI (js ''key'') env0 collecting Map.empty)
     = snd (sendDocumentsToAPI (js ''key'') env_refused collecting Map.empty) \<and>
   replies (botConversation (js ''key'') id env0 (chat (js ''0'')) collecting Map.empty)
     = replies (botConversation (js ''key'') id env_refused (chat (js ''0'')) collecting Map.empty)"
proof -
  have st: "state collecting = Some DOCUMENTING_VISIT"
    by (simp add: collecting_def)
  have ne: "trim (body (chat (js ''0''))) \<noteq> []"
    unfolding trim_zero by (simp add: js_def)
  have kw: "toLowerCase (trim (body (chat (js ''0'')))) = js ''0''"
    by (simp add: trim_zero lower_eq_zero)
  have eq: "botConversation (js ''key'') id e (chat (js ''0'')) collecting Map.empty
      = finalize (js ''key'') id e collecting Map.empty" for e
    using kw by (simp add: conv_documenting [OF ne st])
  have a: "api_reply env0 = RequestThrows (js ''timeout of 60000ms exceeded'')"
    "api_reply env_refused = Responded False None (Some (js ''timeout of 60000ms exceeded''))"
    by (simp_all add: env0_def env_refused_def)
  have 1: "snd (sendDocumentsToAPI (js ''key'') env0 collecting Map.empty)
     = snd (sendDocumentsToAPI (js ''key'') env_refused collecting Map.empty)"
    by (simp add: sendDocumentsToAPI_def a)
  have 2: "replies (finalize (js ''key'') id env0 collecting Map.empty)
     = replies (finalize (js ''key'') id env_refused collecting Map.empty)"
    by (simp add: finalize_def sendDocumentsToAPI_def a)
  from a 1 2 show ?thesis
    by (simp add: eq)
qed

subsection \<open>C7: audio without transcoding\<close>

text \<open>
  C7. During a visit, for an audio message (\<open>ptt\<close> or \<open>audio\<close>, no text) whose download and
  raw write succeed: if the transcoder is unavailable or the conversion fails, exactly
  one file name, the raw payload's, is appended to \<open>visitDocuments\<close>; the raw payload is
  on disk under that name; the "received" acknowledgment is sent; and the handler
  returns without throwing, whatever the transcoder did.
\<close>

theorem audio_without_transcoding:
  assumes "state s = Some DOCUMENTING_VISIT"
    and "trim (body m) = []"
    and "mtype m = js ''ptt'' \<or> mtype m = js ''audio''"
    and "downloaded e = Media (Some mime) mdata"
    and "write_ok e"
    and "\<not> ffmpeg_available e \<or> \<not> ffmpeg_converts e"
  shows "botConversation k f e m s d =
     \<lparr>session_after = s\<lparr>visitDocuments := visitDocuments s
         @ [js ''audio_'' @ show_nat (now1 e) @ js ''_'' @ msg_id m @ js ''.''
              @ or_default (split_second mime) (js ''ogg'')]\<rparr>,
      disk_after = d(path_join visitDocumentsDir
          (js ''audio_'' @ show_nat (now1 e) @ js ''_'' @ msg_id m @ js ''.''
             @ or_default (split_second mime) (js ''ogg'')) \<mapsto> mdata),
      replies = [documentReceivedMessage], posted = None, raised = False\<rparr>"
proof -
  have nc: "mtype m \<noteq> js ''chat''"
    using assms(3) media_types_not_chat by auto
  show ?thesis
    by (simp add: conv_media [OF assms(2) nc assms(1)] media_in_visit_def
        audio_raw_only [OF assms(3-6)])
qed

text \<open>
  C7, witness: a voice note during a visit, first with no transcoder installed, then
  with the transcoder installed and the conversion failing: each time the raw file name
  joins the image collected before, and the acknowledgment is sent.
\<close>

theorem audio_without_transcoding_witness:
  "state collecting = Some DOCUMENTING_VISIT \<and> trim (body voice_note) = [] \<and>
   mtype voice_note = js ''ptt'' \<and>
   downloaded env_voice = Media (Some (js ''audio/ogg; codecs=opus'')) (js ''T2dnUwAC'') \<and>
   write_ok env_voice \<and> \<not> ffmpeg_available env_voice \<and>
   visitDocuments (session_after
     (botConversation (js ''key'') id env_voice voice_note collecting Map.empty))
     = [js ''image_1700000000000_3EB0A0.jpeg'', js ''audio_1700000000000_3EB0A3.ogg; codecs=opus''] \<and>
   replies (botConversation (js ''key'') id env_voice voice_note collecting Map.empty)
     = [documentReceivedMessage] \<and>
   raised (botConversation (js ''key'') id env_voice voice_note collecting Map.empty) = False \<and>
   ffmpeg_available env_voice_unconverted \<and> \<not> ffmpeg_converts env_voice_unconverted \<and>
   visitDocuments (session_after
     (botConversation (js ''key'') id env_voice_unconverted voice_note collecting Map.empty))
     = [js ''image_1700000000000_3EB0A0.jpeg'', js ''audio_1700000000000_3EB0A3.ogg; codecs=opus''] \<and>
   replies (botConversation (js ''key'') id env_voice_unconverted voice_note collecting Map.empty)
     = [documentReceivedMessage]"
proof -
  have 1: "state collecting = Some DOCUMENTING_VISIT"
    by (simp add: collecting_def)
  have 2: "trim (body voice_note) = []"
    by (simp add: voice_note_def)
  have 3: "mtype voice_note = js ''ptt''"
    by (simp add: voice_note_def)
  then have ty: "mtype voice_note = js ''ptt'' \<or> mtype voice_note = js ''audio''"
    by simp
  have 4: "downloaded env_voice = Media (Some (js ''audio/ogg; codecs=opus'')) (js ''T2dnUwAC'')"
    "downloaded env_voice_unconverted
       = Media (Some (js ''audio/ogg; codecs=opus'')) (js ''T2dnUwAC'')"
    by (simp_all add: env_voice_unconverted_def env_voice_def)
  have 5: "write_ok env_voice" "write_ok env_voice_unconverted"
    by (simp_all add: env_voice_unconverted_def env_voice_def env0_def)
  have 6: "\<not> ffmpeg_available env_voice"
    by (simp add: env_voice_def env0_def)
  then have nf: "\<not> ffmpeg_available env_voice \<or> \<not> ffmpeg_converts env_voice"
    by simp
  have 7: "ffmpeg_available env_voice_unconverted" "\<not> ffmpeg_converts env_voice_unconverted"
    by (simp_all add: env_voice_unconverted_def env_voice_def env0_def)
  then have nc: "\<not> ffmpeg_available env_voice_unconverted
      \<or> \<not> ffmpeg_converts env_voice_unconverted"
    by simp
  have n: "now1 env_voice = 1700000000000" "now1 env_voice_unconverted = 1700000000000"
    by (simp_all add: env_voice_unconverted_def env_voice_def env0_def)
  have c: "visitDocuments collecting = [js ''image_1700000000000_3EB0A0.jpeg'']"
    by (simp add: collecting_def)
  show ?thesis
    using 1 2 3 4(1) 5(1) 6 7 c
      audio_without_transcoding [OF 1 2 ty 4(1) 5(1) nf, of "js ''key''" id Map.empty]
      audio_without_transcoding [OF 1 2 ty 4(2) 5(2) nc, of "js ''key''" id Map.empty]
    by (simp add: n voice_name)
qed

subsection \<open>C8: acceptance of a PIN while waiting for it\<close>

text \<open>
  C8, as amended. In state \<open>WAITING_PIN\<close> the credential checked is the message body
  with surrounding whitespace trimmed. It is accepted if and only if it is exactly six
  ASCII digits: the session stores it and becomes \<open>AUTHENTICATED\<close>, and the menu is sent.
  Every other non-empty trimmed text is answered with the invalid-PIN prompt and the
  session is unchanged. A body that is empty after trimming is ignored: no reply, no
  change.
\<close>

theorem pin_acceptance:
  "state s = Some WAITING_PIN \<Longrightarrow>
   (isValidPin (trim (body m)) \<longleftrightarrow> six_ascii_digits (trim (body m))) \<and>
   (isValidPin (trim (body m)) \<longrightarrow>
      session_after (botConversation k f e m s d) =
        s\<lparr>pin := Some (trim (body m)), state := Some AUTHENTICATED\<rparr> \<and>
      replies (botConversation k f e m s d) = [menuMessage]) \<and>
   (trim (body m) \<noteq> [] \<and> \<not> isValidPin (trim (body m)) \<longrightarrow>
      session_after (botConversation k f e m s d) = s \<and>
      replies (botConversation k f e m s d) = [pinInvalidMessage]) \<and>
   (trim (body m) = [] \<longrightarrow>
      session_after (botConversation k f e m s d) = s \<and>
      replies (botConversation k f e m s d) = [])"
proof (intro conjI impI)
  show "isValidPin (trim (body m)) \<longleftrightarrow> six_ascii_digits (trim (body m))"
    by (rule isValidPin_iff)
next
  assume st: "state s = Some WAITING_PIN"
  {
    assume v: "isValidPin (trim (body m))"
    then have ne: "trim (body m) \<noteq> []"
      using isValidPin_not_menu by blast
    show "session_after (botConversation k f e m s d) =
        s\<lparr>pin := Some (trim (body m)), state := Some AUTHENTICATED\<rparr>"
      using v by (simp add: conv_waiting [OF ne st] say_def)
    show "replies (botConversation k f e m s d) = [menuMessage]"
      using v by (simp add: conv_waiting [OF ne st] say_def)
  }
  {
    assume a: "trim (body m) \<noteq> [] \<and> \<not> isValidPin (trim (body m))"
    then have ne: "trim (body m) \<noteq> []"
      by simp
    show "session_after (botConversation k f e m s d) = s"
      using a by (simp add: conv_waiting [OF ne st] say_def)
    show "replies (botConversation k f e m s d) = [pinInvalidMessage]"
      using a by (simp add: conv_waiting [OF ne st] say_def)
  }
  {
    assume em: "trim (body m) = []"
    have "botConversation k f e m s d = silent s d"
      using st by (simp add: conv_empty_other [OF em])
    then show "session_after (botConversation k f e m s d) = s"
      and "replies (botConversation k f e m s d) = []"
      by (simp_all add: silent_def)
  }
qed

text \<open>
  C8, witness: while waiting for the PIN, \<open>654321\<close> is accepted and answered with the
  menu, \<open>12a456\<close> is answered with the invalid-PIN prompt and leaves the state, and a body
  of blanks gets no reply.
\<close>

theorem pin_acceptance_witness:
  "state (session_in (Some WAITING_PIN)) = Some WAITING_PIN \<and>
   isValidPin (trim (body (chat (js ''654321'')))) \<and>
   state (session_after (botConversation (js ''key'') id env0 (chat (js ''654321''))
            (session_in (Some WAITING_PIN)) Map.empty)) = Some AUTHENTICATED \<and>
   replies (botConversation (js ''key'') id env0 (chat (js ''654321''))
            (session_in (Some WAITING_PIN)) Map.empty) = [menuMessage] \<and>
   \<not> isValidPin (trim (body (chat (js ''12a456'')))) \<and>
   state (session_after (botConversation (js ''key'') id env0 (chat (js ''12a456''))
            (session_in (Some WAITING_PIN)) Map.empty)) = Some WAITING_PIN \<and>
   replies (botConversation (js ''key'') id env0 (chat (js ''12a456''))
            (session_in (Some WAITING_PIN)) Map.empty) = [pinInvalidMessage] \<and>
   replies (botConversation (js ''key'') id env0 (chat (js ''   ''))
            (session_in (Some WAITING_PIN)) Map.empty) = []"
proof -
  have st: "state (session_in (Some WAITING_PIN)) = Some WAITING_PIN"
    by (simp add: session_in_def)
  have a: "isValidPin (trim (body (chat (js ''654321''))))"
    by (simp add: eval_simps)
  have b: "\<not> isValidPin (trim (body (chat (js ''12a456''))))"
    "trim (body (chat (js ''12a456''))) \<noteq> []"
    by (simp_all add: eval_simps)
  have c: "trim (body (chat (js ''   ''))) = []"
    by (simp add: eval_simps)
  show ?thesis
    using st a b c
      pin_acceptance [OF st, of "chat (js ''654321'')" "js ''key''" id env0 Map.empty]
      pin_acceptance [OF st, of "chat (js ''12a456'')" "js ''key''" id env0 Map.empty]
      pin_acceptance [OF st, of "chat (js ''   '')" "js ''key''" id env0 Map.empty]
    by simp
qed

text \<open>
  C8, counterexample to the claim as first stated (every string that is not exactly six
  ASCII digits, surrounding whitespace included, is rejected with the invalid-PIN
  prompt): the body \<open>" 123456"\<close> is not six ASCII digits, yet the session becomes
  \<open>AUTHENTICATED\<close>; and the empty body gets no invalid-PIN prompt.
\<close>

theorem pin_whitespace_counterexample:
  "\<not> six_ascii_digits (js '' 123456'') \<and>
   state (session_after (botConversation (js ''key'') id env0 (chat (js '' 123456''))
            (session_in (Some WAITING_PIN)) Map.empty)) = Some AUTHENTICATED \<and>
   replies (botConversation (js ''key'') id env0 (chat [])
            (session_in (Some WAITING_PIN)) Map.empty) = []"
proof -
  have "\<not> isValidPin (js '' 123456'')"
    by (simp add: eval_simps)
  then have 1: "\<not> six_ascii_digits (js '' 123456'')"
    by (simp add: isValidPin_iff)
  have 2: "state (session_after (botConversation (js ''key'') id env0 (chat (js '' 123456''))
            (session_in (Some WAITING_PIN)) Map.empty)) = Some AUTHENTICATED"
    by (simp add: botConversation_def say_def eval_simps)
  have 3: "replies (botConversation (js ''key'') id env0 (chat [])
            (session_in (Some WAITING_PIN)) Map.empty) = []"
    by (simp add: botConversation_def silent_def eval_simps)
  from 1 2 3 show ?thesis
    by blast
qed

subsection \<open>C9: what the report leaves out\<close>




subsection \<open>C10: the value of the accepted PIN\<close>

text \<open>
  C10. Let a sender's session be waiting for the PIN or authenticated, and let two runs
  start with the same message but for its body, a valid PIN in each (after trimming),
  and continue with the same messages and the same answers of the collaborators. Then
  the two runs send the same replies and post the same forms, message by message; and
  in every posted form the \<open>api_key\<close> field is the process-wide key, never the PIN.
\<close>

theorem pin_value_unobservable:
  assumes "isValidPin (trim b1)" and "isValidPin (trim b2)" and "accepts_pin w (sender m)"
  shows "map observable (snd (run k f ((e, m\<lparr>body := b1\<rparr>) # evs) w))
       = map observable (snd (run k f ((e, m\<lparr>body := b2\<rparr>) # evs) w)) \<and>
     (\<forall>out \<in> set (snd (run k f ((e, m\<lparr>body := b1\<rparr>) # evs) w)).
        \<forall>form. posted out = Some form \<longrightarrow> api_key form = k)"
proof
  obtain s where s: "userSessions w (sender m) = Some s"
    and st: "state s = Some WAITING_PIN \<or> state s = Some AUTHENTICATED"
    using assms(3) by (auto simp: accepts_pin_def split: option.splits)
  have so: "session_of w (sender m) = s"
    using s by (simp add: session_of_def)
  let ?m1 = "m\<lparr>body := b1\<rparr>" and ?m2 = "m\<lparr>body := b2\<rparr>"
  have o: "blind (botConversation k f e ?m1 (session_of w (sender ?m1)) (disk w))
      = blind (botConversation k f e ?m2 (session_of w (sender ?m2)) (disk w))"
    using blind_accept [OF assms(1,2) st] by (simp add: so)
  have "blind_world (fst (handleBotConversation k f e ?m1 w))
      = blind_world (fst (handleBotConversation k f e ?m2 w))"
    using refl o by (rule blind_world_step) simp
  then have "map blind (snd (run k f evs (fst (handleBotConversation k f e ?m1 w))))
      = map blind (snd (run k f evs (fst (handleBotConversation k f e ?m2 w))))"
    by (rule blind_run)
  with o have "map blind (snd (run k f ((e, ?m1) # evs) w))
      = map blind (snd (run k f ((e, ?m2) # evs) w))"
    by (simp only: run_Cons_snd handle_outcome list.map)
  then have "map observable (map blind (snd (run k f ((e, ?m1) # evs) w)))
      = map observable (map blind (snd (run k f ((e, ?m2) # evs) w)))"
    by simp
  then show "map observable (snd (run k f ((e, ?m1) # evs) w))
      = map observable (snd (run k f ((e, ?m2) # evs) w))"
    by (simp only: observable_map_blind)
  show "\<forall>out \<in> set (snd (run k f ((e, ?m1) # evs) w)).
        \<forall>form. posted out = Some form \<longrightarrow> api_key form = k"
    using run_api_key by blast
qed

text \<open>
  C10, witness: a sender who has been asked for the PIN sends \<open>123456\<close> in one run and
  \<open>654321\<close> in the other, then documents a visit: the replies and the posted forms are
  the same.
\<close>

theorem pin_value_unobservable_witness:
  "isValidPin (trim (js ''123456'')) \<and> isValidPin (trim (js ''654321'')) \<and>
   accepts_pin waiting_world (sender (chat [])) \<and>
   map observable
     (snd (run (js ''key'') id ((env0, chat []\<lparr>body := js ''123456''\<rparr>) # after_pin) waiting_world))
   = map observable
     (snd (run (js ''key'') id ((env0, chat []\<lparr>body := js ''654321''\<rparr>) # after_pin) waiting_world))"
proof -
  have 1: "isValidPin (trim (js ''123456''))" and 2: "isValidPin (trim (js ''654321''))"
    by (simp_all add: eval_simps)
  have 3: "accepts_pin waiting_world (sender (chat []))"
    by (simp add: accepts_pin_def waiting_world_def chat_def session_in_def)
  show ?thesis
    using 1 2 3 pin_value_unobservable [OF 1 2 3, of "js ''key''" id env0 after_pin]
    by simp
qed

end
